theory Spec2Isabelle
  imports Complex_Main "HOL-Library.Monad_Syntax"
begin

section \<open>Values (value.h, value.c, object.h, object.c)\<close>

text \<open>
  An \<open>ObjString\<close> is a heap object; the model keeps the address \<open>copyString\<close>
  obtained from \<open>malloc\<close> next to the bytes it copied.  The C field \<open>length\<close> is the
  length of \<open>chars\<close>.  A pointer to an \<open>ObjString\<close> is an \<open>ObjString option\<close>,
  \<open>None\<close> being \<open>NULL\<close>.

  The C \<open>double\<close> is modelled by exact rationals: rounding, infinities and NaN are
  outside the model.
\<close>

record ObjString =
  addr :: nat
  chars :: string

datatype Value =
    BOOL_VAL bool
  | NIL_VAL
  | NUMBER_VAL rat
  | OBJ_VAL ObjString

fun IS_BOOL :: "Value \<Rightarrow> bool" where
  "IS_BOOL (BOOL_VAL b) = True"
| "IS_BOOL v = False"

fun IS_NIL :: "Value \<Rightarrow> bool" where
  "IS_NIL NIL_VAL = True"
| "IS_NIL v = False"

fun IS_NUMBER :: "Value \<Rightarrow> bool" where
  "IS_NUMBER (NUMBER_VAL n) = True"
| "IS_NUMBER v = False"

fun IS_OBJ :: "Value \<Rightarrow> bool" where
  "IS_OBJ (OBJ_VAL s) = True"
| "IS_OBJ v = False"

text \<open>
  \<open>AS_NUMBER\<close> reads the \<open>number\<close> member of the union whatever the tag is.
  \<open>NUMBER_VAL\<close> stored that member, and so did \<open>NIL_VAL\<close> (it stores
  \<open>.number = 0\<close>).  After \<open>BOOL_VAL\<close> or \<open>OBJ_VAL\<close> the member was not the one
  stored, and the bytes read are not determined by the program: \<open>None\<close>.
\<close>

fun AS_NUMBER :: "Value \<Rightarrow> rat option" where
  "AS_NUMBER (NUMBER_VAL n) = Some n"
| "AS_NUMBER NIL_VAL = Some 0"
| "AS_NUMBER (BOOL_VAL b) = None"
| "AS_NUMBER (OBJ_VAL s) = None"

text \<open>\<open>valuesEqual\<close>: objects are compared by pointer.\<close>

fun valuesEqual :: "Value \<Rightarrow> Value \<Rightarrow> bool" where
  "valuesEqual (BOOL_VAL a) (BOOL_VAL b) = (a = b)"
| "valuesEqual NIL_VAL NIL_VAL = True"
| "valuesEqual (NUMBER_VAL a) (NUMBER_VAL b) = (a = b)"
| "valuesEqual (OBJ_VAL a) (OBJ_VAL b) = (addr a = addr b)"
| "valuesEqual a b = False"

section \<open>Scanner (scanner.c)\<close>

text \<open>
  Modelled from the spec: the token kinds, which \<open>scanner.h\<close> declares.  They are
  the kinds listed for the scanner, under the names \<open>scanner.c\<close> and \<open>compiler.c\<close>
  use for them.
\<close>

datatype TokenType =
    TOKEN_LEFT_PAREN | TOKEN_RIGHT_PAREN | TOKEN_LEFT_BRACE | TOKEN_RIGHT_BRACE
  | TOKEN_COMMA | TOKEN_DOT | TOKEN_MINUS | TOKEN_PLUS | TOKEN_SEMICOLON
  | TOKEN_SLASH | TOKEN_STAR
  | TOKEN_BANG | TOKEN_BANG_EQUAL | TOKEN_EQUAL | TOKEN_EQUAL_EQUAL
  | TOKEN_GREATER | TOKEN_GREATER_EQUAL | TOKEN_LESS | TOKEN_LESS_EQUAL
  | TOKEN_IDENTIFIER | TOKEN_STRING | TOKEN_NUMBER
  | TOKEN_AND | TOKEN_CLASS | TOKEN_ELSE | TOKEN_FALSE | TOKEN_FOR | TOKEN_FUN
  | TOKEN_IF | TOKEN_NIL | TOKEN_OR | TOKEN_PRINT | TOKEN_RETURN | TOKEN_SUPER
  | TOKEN_THIS | TOKEN_TRUE | TOKEN_VAR | TOKEN_WHILE
  | TOKEN_ERROR | TOKEN_EOF

text \<open>
  Modelled from the spec: the \<open>Token\<close> of \<open>scanner.h\<close>, with a kind, a view into the
  source and a line.  A token's \<open>start\<close> and \<open>length\<close> together are its \<open>lexeme\<close>; for
  an error token the lexeme is the message.
\<close>

record Token =
  ttype :: TokenType
  lexeme :: string
  tline :: int

text \<open>
  The scanner's statics \<open>start\<close>, \<open>current\<close> and \<open>line\<close>.  The first two point into the NUL-terminated
  source: each is the rest of the source from that position on.  The terminator is
  implicit at the end of the list, and a NUL byte inside the list terminates as well,
  because every read goes through \<open>peek\<close>.
\<close>

record Scanner =
  scan_start :: string
  scan_current :: string
  scan_line :: int

definition NUL :: char where
  "NUL = CHR 0x00"

text \<open>The byte \<open>p[i]\<close> of a C string \<open>p\<close>; the terminator stands behind the last byte.\<close>

definition byte_at :: "string \<Rightarrow> nat \<Rightarrow> char" where
  "byte_at p i = (if i < length p then p ! i else NUL)"

definition isAlpha :: "char \<Rightarrow> bool" where
  "isAlpha c = (let n = (of_char c :: nat) in
     (97 \<le> n \<and> n \<le> 122) \<or> (65 \<le> n \<and> n \<le> 90) \<or> c = CHR ''_'')"

definition isDigit :: "char \<Rightarrow> bool" where
  "isDigit c = (let n = (of_char c :: nat) in 48 \<le> n \<and> n \<le> 57)"

definition peek_char :: "Scanner \<Rightarrow> char" where
  "peek_char sc = (case scan_current sc of [] \<Rightarrow> NUL | c # cs \<Rightarrow> c)"

definition isAtEnd :: "Scanner \<Rightarrow> bool" where
  "isAtEnd sc = (peek_char sc = NUL)"

definition advance_char :: "Scanner \<Rightarrow> Scanner" where
  "advance_char sc = (if isAtEnd sc then sc else sc\<lparr>scan_current := tl (scan_current sc)\<rparr>)"

definition peekNext :: "Scanner \<Rightarrow> char" where
  "peekNext sc = (if isAtEnd sc then NUL
     else (case tl (scan_current sc) of [] \<Rightarrow> NUL | c # cs \<Rightarrow> c))"

definition match_char :: "char \<Rightarrow> Scanner \<Rightarrow> bool \<times> Scanner" where
  "match_char expected sc =
     (if isAtEnd sc then (False, sc)
      else if peek_char sc \<noteq> expected then (False, sc)
      else (True, sc\<lparr>scan_current := tl (scan_current sc)\<rparr>))"

definition makeToken :: "TokenType \<Rightarrow> Scanner \<Rightarrow> Token" where
  "makeToken ty sc =
     \<lparr>ttype = ty,
      lexeme = take (length (scan_start sc) - length (scan_current sc)) (scan_start sc),
      tline = scan_line sc\<rparr>"

definition errorToken :: "string \<Rightarrow> Scanner \<Rightarrow> Token" where
  "errorToken message sc = \<lparr>ttype = TOKEN_ERROR, lexeme = message, tline = scan_line sc\<rparr>"

lemma advance_char_shorter:
  "\<not> isAtEnd sc \<Longrightarrow> length (scan_current (advance_char sc)) < length (scan_current sc)"
  by (cases "scan_current sc") (simp_all add: advance_char_def isAtEnd_def peek_char_def)

lemma advance_char_line [simp]: "scan_line (advance_char sc) = scan_line sc"
  by (simp add: advance_char_def)

text \<open>The inner loop of a \<open>//\<close> comment: up to the newline or the end.\<close>

function skipComment :: "Scanner \<Rightarrow> Scanner" where
  "skipComment sc =
     (if peek_char sc \<noteq> CHR 0x0A \<and> \<not> isAtEnd sc then skipComment (advance_char sc) else sc)"
  by pat_completeness auto
termination
  by (relation "measure (\<lambda>sc. length (scan_current sc))") (auto simp: advance_char_shorter)

declare skipComment.simps [simp del]

lemma skipComment_length: "length (scan_current (skipComment sc)) \<le> length (scan_current sc)"
proof (induction sc rule: skipComment.induct)
  case (1 sc)
  show ?case
  proof (cases "peek_char sc \<noteq> CHR 0x0A \<and> \<not> isAtEnd sc")
    case True
    then have "length (scan_current (skipComment (advance_char sc))) \<le> length (scan_current (advance_char sc))"
      using "1" by simp
    also have "\<dots> < length (scan_current sc)"
      using True by (simp add: advance_char_shorter)
    finally show ?thesis
      using True by (subst skipComment.simps) simp
  next
    case False
    then show ?thesis by (subst skipComment.simps) auto
  qed
qed

lemma skipComment_shorter:
  assumes "peek_char sc = CHR ''/''"
  shows "length (scan_current (skipComment sc)) < length (scan_current sc)"
proof -
  have ne: "\<not> isAtEnd sc" using assms by (simp add: isAtEnd_def NUL_def)
  have "skipComment sc = skipComment (advance_char sc)"
    using assms ne by (subst skipComment.simps) simp
  moreover have "length (scan_current (skipComment (advance_char sc))) \<le> length (scan_current (advance_char sc))"
    by (rule skipComment_length)
  ultimately show ?thesis
    using advance_char_shorter [OF ne] by simp
qed

function skipWhitespace :: "Scanner \<Rightarrow> Scanner" where
  "skipWhitespace sc =
     (let c = peek_char sc in
      if c = CHR '' '' \<or> c = CHR 0x0D \<or> c = CHR 0x09 then skipWhitespace (advance_char sc)
      else if c = CHR 0x0A then skipWhitespace (advance_char (sc\<lparr>scan_line := scan_line sc + 1\<rparr>))
      else if c = CHR ''/'' then
        (if peekNext sc = CHR ''/'' then skipWhitespace (skipComment sc) else sc)
      else sc)"
  by pat_completeness auto
termination
proof (relation "measure (\<lambda>sc. length (scan_current sc))", goal_cases)
  case 1
  show ?case by simp
next
  case (2 sc c)
  then have "\<not> isAtEnd sc" by (auto simp: isAtEnd_def NUL_def)
  then show ?case by (simp add: advance_char_shorter)
next
  case (3 sc c)
  then have "\<not> isAtEnd (sc\<lparr>scan_line := scan_line sc + 1\<rparr>)"
    by (auto simp: isAtEnd_def NUL_def peek_char_def)
  from advance_char_shorter [OF this] show ?case by simp
next
  case (4 sc c)
  then show ?case by (simp add: skipComment_shorter)
qed

declare skipWhitespace.simps [simp del]

text \<open>\<open>checkKeyword\<close> and \<open>identifierType\<close> read the bytes between \<open>scan_start\<close> and \<open>scan_current\<close>.\<close>

definition checkKeyword :: "nat \<Rightarrow> nat \<Rightarrow> string \<Rightarrow> TokenType \<Rightarrow> Scanner \<Rightarrow> TokenType" where
  "checkKeyword offset len rest ty sc =
     (if length (scan_start sc) - length (scan_current sc) = offset + len
         \<and> take len (drop offset (scan_start sc)) = rest
      then ty else TOKEN_IDENTIFIER)"

definition identifierType :: "Scanner \<Rightarrow> TokenType" where
  "identifierType sc =
     (let c0 = byte_at (scan_start sc) 0; n = length (scan_start sc) - length (scan_current sc) in
      if c0 = CHR ''a'' then checkKeyword 1 2 ''nd'' TOKEN_AND sc
      else if c0 = CHR ''c'' then checkKeyword 1 4 ''lass'' TOKEN_CLASS sc
      else if c0 = CHR ''e'' then checkKeyword 1 3 ''lse'' TOKEN_ELSE sc
      else if c0 = CHR ''f'' then
        (if n > 1 then
           (let c1 = byte_at (scan_start sc) 1 in
            if c1 = CHR ''a'' then checkKeyword 2 3 ''lse'' TOKEN_FALSE sc
            else if c1 = CHR ''o'' then checkKeyword 2 1 ''r'' TOKEN_FOR sc
            else if c1 = CHR ''u'' then checkKeyword 2 1 ''n'' TOKEN_FUN sc
            else TOKEN_IDENTIFIER)
         else TOKEN_IDENTIFIER)
      else if c0 = CHR ''i'' then checkKeyword 1 1 ''f'' TOKEN_IF sc
      else if c0 = CHR ''n'' then checkKeyword 1 2 ''il'' TOKEN_NIL sc
      else if c0 = CHR ''o'' then checkKeyword 1 1 ''r'' TOKEN_OR sc
      else if c0 = CHR ''p'' then checkKeyword 1 4 ''rint'' TOKEN_PRINT sc
      else if c0 = CHR ''r'' then checkKeyword 1 5 ''eturn'' TOKEN_RETURN sc
      else if c0 = CHR ''s'' then checkKeyword 1 4 ''uper'' TOKEN_SUPER sc
      else if c0 = CHR ''t'' then
        (if n > 1 then
           (let c1 = byte_at (scan_start sc) 1 in
            if c1 = CHR ''h'' then checkKeyword 2 2 ''is'' TOKEN_THIS sc
            else if c1 = CHR ''r'' then checkKeyword 2 2 ''ue'' TOKEN_TRUE sc
            else TOKEN_IDENTIFIER)
         else TOKEN_IDENTIFIER)
      else if c0 = CHR ''v'' then checkKeyword 1 2 ''ar'' TOKEN_VAR sc
      else if c0 = CHR ''w'' then checkKeyword 1 4 ''hile'' TOKEN_WHILE sc
      else TOKEN_IDENTIFIER)"

function alnum_loop :: "Scanner \<Rightarrow> Scanner" where
  "alnum_loop sc =
     (if isAlpha (peek_char sc) \<or> isDigit (peek_char sc) then alnum_loop (advance_char sc) else sc)"
  by pat_completeness auto
termination
proof (relation "measure (\<lambda>sc. length (scan_current sc))", goal_cases)
  case 1
  show ?case by simp
next
  case (2 sc)
  then have "\<not> isAtEnd sc"
    by (auto simp: isAtEnd_def NUL_def isAlpha_def isDigit_def)
  then show ?case by (simp add: advance_char_shorter)
qed

declare alnum_loop.simps [simp del]

definition identifier_token :: "Scanner \<Rightarrow> Token \<times> Scanner" where
  "identifier_token sc = (let sc1 = alnum_loop sc in (makeToken (identifierType sc1) sc1, sc1))"

function digit_loop :: "Scanner \<Rightarrow> Scanner" where
  "digit_loop sc = (if isDigit (peek_char sc) then digit_loop (advance_char sc) else sc)"
  by pat_completeness auto
termination
proof (relation "measure (\<lambda>sc. length (scan_current sc))", goal_cases)
  case 1
  show ?case by simp
next
  case (2 sc)
  then have "\<not> isAtEnd sc"
    by (auto simp: isAtEnd_def NUL_def isDigit_def)
  then show ?case by (simp add: advance_char_shorter)
qed

declare digit_loop.simps [simp del]

definition number_token :: "Scanner \<Rightarrow> Token \<times> Scanner" where
  "number_token sc =
     (let sc1 = digit_loop sc;
          sc2 = (if peek_char sc1 = CHR ''.'' \<and> isDigit (peekNext sc1)
                 then digit_loop (advance_char sc1) else sc1)
      in (makeToken TOKEN_NUMBER sc2, sc2))"

function string_loop :: "Scanner \<Rightarrow> Scanner" where
  "string_loop sc =
     (if peek_char sc \<noteq> CHR 0x22 \<and> \<not> isAtEnd sc
      then string_loop (advance_char (if peek_char sc = CHR 0x0A then sc\<lparr>scan_line := scan_line sc + 1\<rparr> else sc))
      else sc)"
  by pat_completeness auto
termination
proof (relation "measure (\<lambda>sc. length (scan_current sc))", goal_cases)
  case 1
  show ?case by simp
next
  case (2 sc)
  then have "\<not> isAtEnd (if peek_char sc = CHR 0x0A then sc\<lparr>scan_line := scan_line sc + 1\<rparr> else sc)"
    by (auto simp: isAtEnd_def peek_char_def)
  from advance_char_shorter [OF this] show ?case by (simp split: if_splits)
qed

declare string_loop.simps [simp del]

definition string_token :: "Scanner \<Rightarrow> Token \<times> Scanner" where
  "string_token sc =
     (let sc1 = string_loop sc in
      if isAtEnd sc1 then (errorToken ''Unterminated string.'' sc1, sc1)
      else (let sc2 = advance_char sc1 in (makeToken TOKEN_STRING sc2, sc2)))"

definition initScanner :: "string \<Rightarrow> Scanner" where
  "initScanner source = \<lparr>scan_start = source, scan_current = source, scan_line = 1\<rparr>"

definition two_char :: "TokenType \<Rightarrow> TokenType \<Rightarrow> Scanner \<Rightarrow> Token \<times> Scanner" where
  "two_char ty2 ty1 sc =
     (let (m, sc1) = match_char (CHR ''='') sc in (makeToken (if m then ty2 else ty1) sc1, sc1))"

definition scanToken :: "Scanner \<Rightarrow> Token \<times> Scanner" where
  "scanToken sc0 =
     (let sc1 = skipWhitespace sc0;
          sc2 = sc1\<lparr>scan_start := scan_current sc1\<rparr>
      in if isAtEnd sc2 then (makeToken TOKEN_EOF sc2, sc2)
      else
        (let c = peek_char sc2; sc = advance_char sc2 in
         if isAlpha c then identifier_token sc
         else if isDigit c then number_token sc
         else if c = CHR ''('' then (makeToken TOKEN_LEFT_PAREN sc, sc)
         else if c = CHR '')'' then (makeToken TOKEN_RIGHT_PAREN sc, sc)
         else if c = CHR ''{'' then (makeToken TOKEN_LEFT_BRACE sc, sc)
         else if c = CHR ''}'' then (makeToken TOKEN_RIGHT_BRACE sc, sc)
         else if c = CHR '';'' then (makeToken TOKEN_SEMICOLON sc, sc)
         else if c = CHR '','' then (makeToken TOKEN_COMMA sc, sc)
         else if c = CHR ''.'' then (makeToken TOKEN_DOT sc, sc)
         else if c = CHR ''-'' then (makeToken TOKEN_MINUS sc, sc)
         else if c = CHR ''+'' then (makeToken TOKEN_PLUS sc, sc)
         else if c = CHR ''/'' then (makeToken TOKEN_SLASH sc, sc)
         else if c = CHR ''*'' then (makeToken TOKEN_STAR sc, sc)
         else if c = CHR ''!'' then two_char TOKEN_BANG_EQUAL TOKEN_BANG sc
         else if c = CHR ''='' then two_char TOKEN_EQUAL_EQUAL TOKEN_EQUAL sc
         else if c = CHR ''<'' then two_char TOKEN_LESS_EQUAL TOKEN_LESS sc
         else if c = CHR ''>'' then two_char TOKEN_GREATER_EQUAL TOKEN_GREATER sc
         else if c = CHR 0x22 then string_token sc
         else (errorToken ''Unexpected character.'' sc, sc)))"

lemma skipWhitespace_length:
  "length (scan_current (skipWhitespace sc)) \<le> length (scan_current sc)"
proof (induction sc rule: skipWhitespace.induct)
  case (1 sc)
  let ?c = "peek_char sc"
  consider (blank) "?c = CHR '' '' \<or> ?c = CHR 0x0D \<or> ?c = CHR 0x09"
    | (newline) "\<not> (?c = CHR '' '' \<or> ?c = CHR 0x0D \<or> ?c = CHR 0x09)" "?c = CHR 0x0A"
    | (comment) "\<not> (?c = CHR '' '' \<or> ?c = CHR 0x0D \<or> ?c = CHR 0x09)" "?c \<noteq> CHR 0x0A"
        "?c = CHR ''/''" "peekNext sc = CHR ''/''"
    | (other) "\<not> (?c = CHR '' '' \<or> ?c = CHR 0x0D \<or> ?c = CHR 0x09)" "?c \<noteq> CHR 0x0A"
        "\<not> (?c = CHR ''/'' \<and> peekNext sc = CHR ''/'')"
    by blast
  then show ?case
  proof cases
    case blank
    then have ne: "\<not> isAtEnd sc" by (auto simp: isAtEnd_def NUL_def)
    have "length (scan_current (skipWhitespace (advance_char sc))) \<le> length (scan_current (advance_char sc))"
      using "1.IH"(1) [OF refl blank] .
    then show ?thesis
      using blank advance_char_shorter [OF ne] by (subst skipWhitespace.simps) (simp add: Let_def)
  next
    case newline
    let ?sc = "sc\<lparr>scan_line := scan_line sc + 1\<rparr>"
    have ne: "\<not> isAtEnd ?sc" using newline by (auto simp: isAtEnd_def NUL_def peek_char_def)
    have "length (scan_current (skipWhitespace (advance_char ?sc))) \<le> length (scan_current (advance_char ?sc))"
      using "1.IH"(2) [OF refl newline] .
    then show ?thesis
      using newline advance_char_shorter [OF ne] by (subst skipWhitespace.simps) (simp add: Let_def)
  next
    case comment
    have "length (scan_current (skipWhitespace (skipComment sc))) \<le> length (scan_current (skipComment sc))"
      using "1.IH"(3) [OF refl comment] .
    then show ?thesis
      using comment skipComment_length [of sc] by (subst skipWhitespace.simps) (simp add: Let_def)
  next
    case other
    then show ?thesis by (subst skipWhitespace.simps) (auto simp: Let_def)
  qed
qed

lemma alnum_loop_length: "length (scan_current (alnum_loop sc)) \<le> length (scan_current sc)"
proof (induction sc rule: alnum_loop.induct)
  case (1 sc)
  show ?case
  proof (cases "isAlpha (peek_char sc) \<or> isDigit (peek_char sc)")
    case True
    then have ne: "\<not> isAtEnd sc"
      by (auto simp: isAtEnd_def NUL_def isAlpha_def isDigit_def)
    show ?thesis
      using True "1" advance_char_shorter [OF ne] by (subst alnum_loop.simps) simp
  next
    case False
    then show ?thesis by (subst alnum_loop.simps) simp
  qed
qed

lemma digit_loop_length: "length (scan_current (digit_loop sc)) \<le> length (scan_current sc)"
proof (induction sc rule: digit_loop.induct)
  case (1 sc)
  show ?case
  proof (cases "isDigit (peek_char sc)")
    case True
    then have ne: "\<not> isAtEnd sc"
      by (auto simp: isAtEnd_def NUL_def isDigit_def)
    show ?thesis
      using True "1" advance_char_shorter [OF ne] by (subst digit_loop.simps) simp
  next
    case False
    then show ?thesis by (subst digit_loop.simps) simp
  qed
qed

lemma string_loop_length: "length (scan_current (string_loop sc)) \<le> length (scan_current sc)"
proof (induction sc rule: string_loop.induct)
  case (1 sc)
  show ?case
  proof (cases "peek_char sc \<noteq> CHR 0x22 \<and> \<not> isAtEnd sc")
    case True
    let ?sc = "if peek_char sc = CHR 0x0A then sc\<lparr>scan_line := scan_line sc + 1\<rparr> else sc"
    have ne: "\<not> isAtEnd ?sc" using True by (auto simp: isAtEnd_def peek_char_def)
    have "length (scan_current (advance_char ?sc)) < length (scan_current sc)"
      using advance_char_shorter [OF ne] by (simp split: if_splits)
    then show ?thesis
      using True "1" by (subst string_loop.simps) simp
  next
    case False
    then show ?thesis by (subst string_loop.simps) auto
  qed
qed

lemma advance_char_length: "length (scan_current (advance_char sc)) \<le> length (scan_current sc)"
  by (simp add: advance_char_def)

lemma identifier_token_length:
  "length (scan_current (snd (identifier_token sc))) \<le> length (scan_current sc)"
  by (simp add: identifier_token_def Let_def alnum_loop_length)

lemma number_token_length:
  "length (scan_current (snd (number_token sc))) \<le> length (scan_current sc)"
proof -
  have "length (scan_current (digit_loop (advance_char (digit_loop sc)))) \<le> length (scan_current sc)"
    using digit_loop_length [of "advance_char (digit_loop sc)"]
      advance_char_length [of "digit_loop sc"] digit_loop_length [of sc] by linarith
  then show ?thesis
    by (simp add: number_token_def Let_def digit_loop_length)
qed

lemma string_token_length:
  "length (scan_current (snd (string_token sc))) \<le> length (scan_current sc)"
  using advance_char_length [of "string_loop sc"] string_loop_length [of sc]
  by (simp add: string_token_def Let_def)

lemma two_char_length:
  "length (scan_current (snd (two_char a b sc))) \<le> length (scan_current sc)"
  by (simp add: two_char_def match_char_def Let_def)

text \<open>Every token but \<open>TOKEN_EOF\<close> consumes at least one byte of the source.\<close>

lemma scanToken_consumes:
  assumes "ttype (fst (scanToken sc)) \<noteq> TOKEN_EOF"
  shows "length (scan_current (snd (scanToken sc))) < length (scan_current sc)"
proof -
  define sc2 where "sc2 = (skipWhitespace sc)\<lparr>scan_start := scan_current (skipWhitespace sc)\<rparr>"
  have le2: "length (scan_current sc2) \<le> length (scan_current sc)"
    by (simp add: sc2_def skipWhitespace_length)
  have ne: "\<not> isAtEnd sc2"
    using assms by (auto simp: scanToken_def Let_def sc2_def makeToken_def)
  define s where "s = advance_char sc2"
  have lt: "length (scan_current s) < length (scan_current sc)"
    using advance_char_shorter [OF ne] le2 by (simp add: s_def)
  have "length (scan_current (snd (scanToken sc))) \<le> length (scan_current s)"
    using ne identifier_token_length [of s] number_token_length [of s]
      string_token_length [of s] two_char_length [of _ _ s]
    by (simp add: scanToken_def Let_def sc2_def [symmetric] s_def [symmetric])
  then show ?thesis using lt by linarith
qed

section \<open>Chunks (chunk.h, chunk.c)\<close>

text \<open>
  Bytes are naturals below 256; a cast to \<open>uint8_t\<close> is written out as \<open>mod 256\<close>.
  The C \<open>int\<close> counts and offsets are unbounded integers here.  The opcodes are the
  values of the enumeration \<open>OpCode\<close>.
\<close>

named_theorems opcodes

definition OP_CONSTANT :: nat where [opcodes]: "OP_CONSTANT = 0"
definition OP_NIL :: nat where [opcodes]: "OP_NIL = 1"
definition OP_TRUE :: nat where [opcodes]: "OP_TRUE = 2"
definition OP_FALSE :: nat where [opcodes]: "OP_FALSE = 3"
definition OP_POP :: nat where [opcodes]: "OP_POP = 4"
definition OP_GET_LOCAL :: nat where [opcodes]: "OP_GET_LOCAL = 5"
definition OP_SET_LOCAL :: nat where [opcodes]: "OP_SET_LOCAL = 6"
definition OP_GET_GLOBAL :: nat where [opcodes]: "OP_GET_GLOBAL = 7"
definition OP_DEFINE_GLOBAL :: nat where [opcodes]: "OP_DEFINE_GLOBAL = 8"
definition OP_SET_GLOBAL :: nat where [opcodes]: "OP_SET_GLOBAL = 9"
definition OP_EQUAL :: nat where [opcodes]: "OP_EQUAL = 10"
definition OP_GREATER :: nat where [opcodes]: "OP_GREATER = 11"
definition OP_LESS :: nat where [opcodes]: "OP_LESS = 12"
definition OP_ADD :: nat where [opcodes]: "OP_ADD = 13"
definition OP_SUBTRACT :: nat where [opcodes]: "OP_SUBTRACT = 14"
definition OP_MULTIPLY :: nat where [opcodes]: "OP_MULTIPLY = 15"
definition OP_DIVIDE :: nat where [opcodes]: "OP_DIVIDE = 16"
definition OP_NOT :: nat where [opcodes]: "OP_NOT = 17"
definition OP_NEGATE :: nat where [opcodes]: "OP_NEGATE = 18"
definition OP_PRINT :: nat where [opcodes]: "OP_PRINT = 19"
definition OP_JUMP :: nat where [opcodes]: "OP_JUMP = 20"
definition OP_JUMP_IF_FALSE :: nat where [opcodes]: "OP_JUMP_IF_FALSE = 21"
definition OP_LOOP :: nat where [opcodes]: "OP_LOOP = 22"
definition OP_RETURN :: nat where [opcodes]: "OP_RETURN = 23"

record Chunk =
  code :: "nat list"
  lines :: "int list"
  constants :: "Value list"

definition count :: "Chunk \<Rightarrow> int" where
  "count c = int (length (code c))"

definition initChunk :: Chunk where
  "initChunk = \<lparr>code = [], lines = [], constants = []\<rparr>"

definition writeChunk :: "nat \<Rightarrow> int \<Rightarrow> Chunk \<Rightarrow> Chunk" where
  "writeChunk byte lno c = c\<lparr>code := code c @ [byte], lines := lines c @ [lno]\<rparr>"

text \<open>\<open>addConstant\<close> appends the value and returns its index \<open>constants.count - 1\<close>.\<close>

definition addConstant :: "Value \<Rightarrow> Chunk \<Rightarrow> int \<times> Chunk" where
  "addConstant v c =
     (let c1 = c\<lparr>constants := constants c @ [v]\<rparr> in (int (length (constants c1)) - 1, c1))"

definition uint8 :: "int \<Rightarrow> nat" where
  "uint8 i = nat (i mod 256)"

section \<open>The state of the process\<close>

text \<open>
  The file-level statics of \<open>scanner.c\<close>, \<open>compiler.c\<close> and \<open>vm.c\<close>, the \<open>Chunk\<close>
  local to the running \<open>interpret\<close> call (the target of \<open>compilingChunk\<close> and of
  \<open>vm.chunk\<close>), the next address \<open>malloc\<close> hands to \<open>copyString\<close>, and the two
  output streams.

  Modelled from the spec: \<open>printValue\<close>, declared in \<open>value.h\<close>, formats one value.
  Standard output is the sequence of values handed to \<open>printValue\<close>, each followed by
  a newline.  The diagnostic stream is a sequence of messages: \<open>errorAt\<close> writes the
  line, the place and the message, \<open>runtimeError\<close> writes the formatted message.
\<close>

record Parser =
  current :: Token
  previous :: Token
  hadError :: bool
  panicMode :: bool

datatype Place = At_end | At_lexeme string | No_place

datatype Diag = Compile_diag int Place string | Runtime_diag string

text \<open>
  \<open>vm.stack\<close> is \<open>NULL\<close> at process start, points to a live buffer after the first
  \<open>realloc\<close>, and dangles after \<open>free\<close>.  The slots below \<open>stackTop\<close> are the list
  \<open>stack\<close>, top first; \<open>stackTop\<close> is its length.
\<close>

datatype Buffer = Null | Live | Dangling

record VM =
  ip :: int
  stack :: "Value list"
  stackCapacity :: int
  stack_buffer :: Buffer

record World =
  scanner :: Scanner
  parser :: Parser
  chunk :: Chunk
  vm :: VM
  globals :: "(ObjString option \<times> Value) list"
  next_addr :: nat
  out :: "Value list"
  err :: "Diag list"

section \<open>Compiler (compiler.c)\<close>

definition errorAt :: "Token \<Rightarrow> string \<Rightarrow> World \<Rightarrow> World" where
  "errorAt token message w =
     (if panicMode (parser w) then w
      else w\<lparr>parser := (parser w)\<lparr>panicMode := True, hadError := True\<rparr>,
             err := err w @
               [Compile_diag (tline token)
                  (if ttype token = TOKEN_EOF then At_end
                   else if ttype token \<noteq> TOKEN_ERROR then At_lexeme (lexeme token)
                   else No_place)
                  message]\<rparr>)"

definition error :: "string \<Rightarrow> World \<Rightarrow> World" where
  "error message w = errorAt (previous (parser w)) message w"

definition errorAtCurrent :: "string \<Rightarrow> World \<Rightarrow> World" where
  "errorAtCurrent message w = errorAt (current (parser w)) message w"

lemma errorAt_scanner [simp]: "scanner (errorAt t m w) = scanner w"
  by (simp add: errorAt_def)

function advance_loop :: "World \<Rightarrow> World" where
  "advance_loop w =
     (let r = scanToken (scanner w);
          w1 = w\<lparr>scanner := snd r, parser := (parser w)\<lparr>current := fst r\<rparr>\<rparr>
      in if ttype (current (parser w1)) \<noteq> TOKEN_ERROR then w1
         else advance_loop (errorAtCurrent (lexeme (current (parser w1))) w1))"
  by pat_completeness auto
termination
proof (relation "measure (\<lambda>w. length (scan_current (scanner w)))", goal_cases)
  case 1
  show ?case by simp
next
  case (2 w r w1)
  then have "ttype (fst (scanToken (scanner w))) \<noteq> TOKEN_EOF" by simp
  from scanToken_consumes [OF this] 2 show ?case
    by (simp add: errorAtCurrent_def)
qed

declare advance_loop.simps [simp del]

definition advance :: "World \<Rightarrow> World" where
  "advance w = advance_loop (w\<lparr>parser := (parser w)\<lparr>previous := current (parser w)\<rparr>\<rparr>)"

definition match :: "TokenType \<Rightarrow> World \<Rightarrow> bool \<times> World" where
  "match ty w = (if ttype (current (parser w)) = ty then (True, advance w) else (False, w))"

definition consume :: "TokenType \<Rightarrow> string \<Rightarrow> World \<Rightarrow> World" where
  "consume ty message w =
     (if ttype (current (parser w)) = ty then advance w else errorAtCurrent message w)"

definition emitByte :: "nat \<Rightarrow> int \<Rightarrow> World \<Rightarrow> World" where
  "emitByte byte lno w = w\<lparr>chunk := writeChunk byte lno (chunk w)\<rparr>"

definition emitBytes :: "nat \<Rightarrow> nat \<Rightarrow> int \<Rightarrow> World \<Rightarrow> World" where
  "emitBytes b1 b2 lno w = emitByte b2 lno (emitByte b1 lno w)"

definition emitConstant :: "Value \<Rightarrow> int \<Rightarrow> World \<Rightarrow> World" where
  "emitConstant v lno w =
     (let r = addConstant v (chunk w)
      in emitBytes OP_CONSTANT (uint8 (fst r)) lno (w\<lparr>chunk := snd r\<rparr>))"

definition emitJump :: "nat \<Rightarrow> int \<Rightarrow> World \<Rightarrow> int \<times> World" where
  "emitJump opc lno w =
     (let w1 = emitByte 255 lno (emitByte 255 lno (emitByte opc lno w))
      in (count (chunk w1) - 2, w1))"

text \<open>
  \<open>(jump >> 8) & 0xff\<close> and \<open>jump & 0xff\<close> on a two's complement \<open>int\<close>, with an
  arithmetic shift: \<open>div\<close> and \<open>mod\<close> of HOL's integers, which round down.
\<close>

definition patchJump :: "int \<Rightarrow> World \<Rightarrow> World" where
  "patchJump offset w =
     (let jump = count (chunk w) - offset - 2 in
      w\<lparr>chunk := (chunk w)\<lparr>code :=
           (code (chunk w))[nat offset := nat ((jump div 256) mod 256),
                            nat (offset + 1) := nat (jump mod 256)]\<rparr>\<rparr>)"

definition copyString :: "string \<Rightarrow> World \<Rightarrow> ObjString \<times> World" where
  "copyString cs w = (\<lparr>addr = next_addr w, chars = cs\<rparr>, w\<lparr>next_addr := next_addr w + 1\<rparr>)"

definition identifierConstant :: "Token \<Rightarrow> World \<Rightarrow> nat \<times> World" where
  "identifierConstant name w =
     (let s = copyString (lexeme name) w;
          r = addConstant (OBJ_VAL (fst s)) (chunk (snd s))
      in (uint8 (fst r), (snd s)\<lparr>chunk := snd r\<rparr>))"

text \<open>
  \<open>strtod\<close> of the C library, on the lexeme of a \<open>TOKEN_NUMBER\<close>: digits, then
  optionally a point and digits.  The compiler hands \<open>strtod\<close> the token's start in
  the source, so the library could read on past the lexeme, into an exponent or a
  hexadecimal number; the token after the number is then an identifier, and the
  compilation fails.
\<close>

definition digit_value :: "char \<Rightarrow> nat" where
  "digit_value c = of_char c - 48"

definition decimal :: "string \<Rightarrow> nat" where
  "decimal ds = foldl (\<lambda>a c. 10 * a + digit_value c) 0 ds"

definition strtod :: "string \<Rightarrow> rat" where
  "strtod s =
     (let ds = takeWhile isDigit s; r = dropWhile isDigit s in
      case r of
        [] \<Rightarrow> of_nat (decimal ds)
      | c # fs \<Rightarrow>
          (if c = CHR ''.''
           then of_nat (decimal ds) + of_nat (decimal (takeWhile isDigit fs)) / 10 ^ length (takeWhile isDigit fs)
           else of_nat (decimal ds)))"

definition pline :: "World \<Rightarrow> int" where
  "pline w = tline (previous (parser w))"

definition ctype :: "World \<Rightarrow> TokenType" where
  "ctype w = ttype (current (parser w))"

text \<open>
  The parsing functions call each other recursively, and the loop of \<open>compile\<close> has
  no bound of its own: they take fuel, one unit per call and per loop iteration, and
  \<open>None\<close> is the answer of a computation the fuel did not suffice for.

  \<open>match\<close> leaves the state alone when it answers false, so a chain
  \<open>if (match(A)) ... else if (match(B)) ...\<close> tests \<open>fst (match A w)\<close> and goes on in
  \<open>snd (match A w)\<close>.
\<close>

fun parsePrecedence1 :: "nat \<Rightarrow> World \<Rightarrow> World option"
  and expression :: "nat \<Rightarrow> World \<Rightarrow> World option"
  and expression_loop :: "nat \<Rightarrow> World \<Rightarrow> World option"
where
  "parsePrecedence1 0 w = None"
| "parsePrecedence1 (Suc n) w =
     (if fst (match TOKEN_BANG w) \<or> fst (match TOKEN_MINUS w) then
        (let w1 = (if fst (match TOKEN_BANG w) then snd (match TOKEN_BANG w)
                   else snd (match TOKEN_MINUS w));
             opr = ttype (previous (parser w1))
         in do {
           w2 \<leftarrow> parsePrecedence1 n w1;
           Some (if opr = TOKEN_BANG then emitByte OP_NOT (pline w2) w2
                 else emitByte OP_NEGATE (pline w2) w2)
         })
      else if fst (match TOKEN_FALSE w) then
        (let w1 = snd (match TOKEN_FALSE w) in Some (emitByte OP_FALSE (pline w1) w1))
      else if fst (match TOKEN_TRUE w) then
        (let w1 = snd (match TOKEN_TRUE w) in Some (emitByte OP_TRUE (pline w1) w1))
      else if fst (match TOKEN_NIL w) then
        (let w1 = snd (match TOKEN_NIL w) in Some (emitByte OP_NIL (pline w1) w1))
      else if fst (match TOKEN_NUMBER w) then
        (let w1 = snd (match TOKEN_NUMBER w)
         in Some (emitConstant (NUMBER_VAL (strtod (lexeme (previous (parser w1))))) (pline w1) w1))
      else if fst (match TOKEN_LEFT_PAREN w) then
        do {
          w1 \<leftarrow> expression n (snd (match TOKEN_LEFT_PAREN w));
          Some (consume TOKEN_RIGHT_PAREN ''Expect ')' after expression.'' w1)
        }
      else if fst (match TOKEN_IDENTIFIER w) then
        (let w1 = snd (match TOKEN_IDENTIFIER w);
             name = previous (parser w1);
             r = identifierConstant name w1;
             arg = fst r;
             w2 = snd r
         in if fst (match TOKEN_EQUAL w2) then
              do {
                w3 \<leftarrow> expression n (snd (match TOKEN_EQUAL w2));
                Some (emitBytes OP_SET_GLOBAL arg (pline w3) w3)
              }
            else Some (emitBytes OP_GET_GLOBAL arg (pline w2) w2))
      else Some (errorAtCurrent ''Expect expression.'' w))"
| "expression 0 w = None"
| "expression (Suc n) w = do { w1 \<leftarrow> parsePrecedence1 n w; expression_loop n w1 }"
| "expression_loop 0 w = None"
| "expression_loop (Suc n) w =
     (if fst (match TOKEN_STAR w) then
        do { w1 \<leftarrow> parsePrecedence1 n (snd (match TOKEN_STAR w));
             expression_loop n (emitByte OP_MULTIPLY (pline w1) w1) }
      else if fst (match TOKEN_SLASH w) then
        do { w1 \<leftarrow> parsePrecedence1 n (snd (match TOKEN_SLASH w));
             expression_loop n (emitByte OP_DIVIDE (pline w1) w1) }
      else if fst (match TOKEN_PLUS w) then
        do { w1 \<leftarrow> parsePrecedence1 n (snd (match TOKEN_PLUS w));
             expression_loop n (emitByte OP_ADD (pline w1) w1) }
      else if fst (match TOKEN_MINUS w) then
        do { w1 \<leftarrow> parsePrecedence1 n (snd (match TOKEN_MINUS w));
             expression_loop n (emitByte OP_SUBTRACT (pline w1) w1) }
      else if fst (match TOKEN_EQUAL_EQUAL w) then
        do { w1 \<leftarrow> parsePrecedence1 n (snd (match TOKEN_EQUAL_EQUAL w));
             expression_loop n (emitByte OP_EQUAL (pline w1) w1) }
      else if fst (match TOKEN_BANG_EQUAL w) then
        do { w1 \<leftarrow> parsePrecedence1 n (snd (match TOKEN_BANG_EQUAL w));
             expression_loop n (emitByte OP_NOT (pline w1) (emitByte OP_EQUAL (pline w1) w1)) }
      else if fst (match TOKEN_LESS w) then
        do { w1 \<leftarrow> parsePrecedence1 n (snd (match TOKEN_LESS w));
             expression_loop n (emitByte OP_LESS (pline w1) w1) }
      else if fst (match TOKEN_LESS_EQUAL w) then
        do { w1 \<leftarrow> parsePrecedence1 n (snd (match TOKEN_LESS_EQUAL w));
             expression_loop n (emitByte OP_NOT (pline w1) (emitByte OP_GREATER (pline w1) w1)) }
      else if fst (match TOKEN_GREATER w) then
        do { w1 \<leftarrow> parsePrecedence1 n (snd (match TOKEN_GREATER w));
             expression_loop n (emitByte OP_GREATER (pline w1) w1) }
      else if fst (match TOKEN_GREATER_EQUAL w) then
        do { w1 \<leftarrow> parsePrecedence1 n (snd (match TOKEN_GREATER_EQUAL w));
             expression_loop n (emitByte OP_NOT (pline w1) (emitByte OP_LESS (pline w1) w1)) }
      else Some w)"

text \<open>
  The loop of \<open>while\<close> writes the operand of \<open>OP_LOOP\<close> from
  \<open>offset = loopStart - compilingChunk->count - 2\<close>, taken before \<open>OP_LOOP\<close> is
  emitted.
\<close>

definition emitLoop :: "int \<Rightarrow> World \<Rightarrow> World" where
  "emitLoop loopStart w =
     (let offset = loopStart - count (chunk w) - 2 in
      emitByte (nat (offset mod 256)) (pline w)
        (emitByte (nat ((offset div 256) mod 256)) (pline w)
           (emitByte OP_LOOP (pline w) w)))"

fun declaration_p :: "nat \<Rightarrow> World \<Rightarrow> World option"
  and block_loop :: "nat \<Rightarrow> World \<Rightarrow> World option"
where
  "declaration_p 0 w = None"
| "declaration_p (Suc n) w =
     (if fst (match TOKEN_VAR w) then
        (let w1 = consume TOKEN_IDENTIFIER ''Expect variable name.'' (snd (match TOKEN_VAR w));
             r = identifierConstant (previous (parser w1)) w1;
             arg = fst r;
             w2 = snd r
         in do {
           w3 \<leftarrow> (if fst (match TOKEN_EQUAL w2) then expression n (snd (match TOKEN_EQUAL w2))
                  else Some (emitByte OP_NIL (pline w2) w2));
           let w4 = consume TOKEN_SEMICOLON ''Expect ';' after variable declaration.'' w3;
           Some (emitBytes OP_DEFINE_GLOBAL arg (pline w4) w4)
         })
      else if fst (match TOKEN_PRINT w) then
        do {
          w1 \<leftarrow> expression n (snd (match TOKEN_PRINT w));
          let w2 = consume TOKEN_SEMICOLON ''Expect ';' after value.'' w1;
          Some (emitByte OP_PRINT (pline w2) w2)
        }
      else if fst (match TOKEN_IF w) then
        do {
          w1 \<leftarrow> expression n (consume TOKEN_LEFT_PAREN ''Expect '(' after 'if'.'' (snd (match TOKEN_IF w)));
          let w2 = consume TOKEN_RIGHT_PAREN ''Expect ')' after if condition.'' w1;
          let r = emitJump OP_JUMP_IF_FALSE (pline w2) w2;
          let thenJump = fst r;
          let w3 = emitByte OP_POP (pline (snd r)) (snd r);
          w4 \<leftarrow> declaration_p n w3;
          let r' = emitJump OP_JUMP (pline w4) w4;
          let elseJump = fst r';
          let w5 = patchJump thenJump (snd r');
          let w6 = emitByte OP_POP (pline w5) w5;
          w7 \<leftarrow> (if fst (match TOKEN_ELSE w6) then declaration_p n (snd (match TOKEN_ELSE w6))
                 else Some w6);
          Some (patchJump elseJump w7)
        }
      else if fst (match TOKEN_WHILE w) then
        (let w0 = snd (match TOKEN_WHILE w);
             loopStart = count (chunk w0)
         in do {
           w1 \<leftarrow> expression n (consume TOKEN_LEFT_PAREN ''Expect '(' after 'while'.'' w0);
           let w2 = consume TOKEN_RIGHT_PAREN ''Expect ')' after condition.'' w1;
           let r = emitJump OP_JUMP_IF_FALSE (pline w2) w2;
           let exitJump = fst r;
           let w3 = emitByte OP_POP (pline (snd r)) (snd r);
           w4 \<leftarrow> declaration_p n w3;
           let w5 = emitLoop loopStart w4;
           let w6 = patchJump exitJump w5;
           Some (emitByte OP_POP (pline w6) w6)
         })
      else if fst (match TOKEN_LEFT_BRACE w) then
        do {
          w1 \<leftarrow> block_loop n (snd (match TOKEN_LEFT_BRACE w));
          Some (consume TOKEN_RIGHT_BRACE ''Expect '}' after block.'' w1)
        }
      else
        do {
          w1 \<leftarrow> expression n w;
          let w2 = consume TOKEN_SEMICOLON ''Expect ';' after expression.'' w1;
          Some (emitByte OP_POP (pline w2) w2)
        })"
| "block_loop 0 w = None"
| "block_loop (Suc n) w =
     (if ctype w \<noteq> TOKEN_RIGHT_BRACE \<and> \<not> hadError (parser w)
      then do { w1 \<leftarrow> declaration_p n w; block_loop n w1 }
      else Some w)"

text \<open>The loop \<open>while (!match(TOKEN_EOF)) declaration();\<close> of \<open>compile\<close>.\<close>

fun compile_loop :: "nat \<Rightarrow> World \<Rightarrow> World option" where
  "compile_loop 0 w = None"
| "compile_loop (Suc n) w =
     (if \<not> fst (match TOKEN_EOF w)
      then do { w1 \<leftarrow> declaration_p n w; compile_loop n w1 }
      else Some (snd (match TOKEN_EOF w)))"

text \<open>
  \<open>compile fuel source w\<close> compiles into the chunk of \<open>w\<close> and answers the new state
  with the value returned, \<open>!parser.hadError\<close>.
\<close>

definition compile :: "nat \<Rightarrow> string \<Rightarrow> World \<Rightarrow> (bool \<times> World) option" where
  "compile fuel source w =
     (let w1 = w\<lparr>scanner := initScanner source\<rparr>;
          w2 = w1\<lparr>parser := (parser w1)\<lparr>hadError := False, panicMode := False\<rparr>\<rparr>;
          w3 = advance w2
      in do {
        w4 \<leftarrow> compile_loop fuel w3;
        let w5 = emitByte OP_RETURN (pline w4) w4;
        Some (\<not> hadError (parser w5), w5)
      })"

text \<open>
  The statics of a fresh process are zero.  \<open>TOKEN_LEFT_PAREN\<close> stands for the token
  kind whose value is 0; the compiler assigns both tokens of the parser before it
  reads the kind of either.
\<close>

definition zero_token :: Token where
  "zero_token = \<lparr>ttype = TOKEN_LEFT_PAREN, lexeme = [], tline = 0\<rparr>"

definition process_start :: World where
  "process_start =
     \<lparr>scanner = \<lparr>scan_start = [], scan_current = [], scan_line = 0\<rparr>,
      parser = \<lparr>current = zero_token, previous = zero_token, hadError = False, panicMode = False\<rparr>,
      chunk = initChunk,
      vm = \<lparr>ip = 0, stack = [], stackCapacity = 0, stack_buffer = Null\<rparr>,
      globals = [],
      next_addr = 0,
      out = [],
      err = []\<rparr>"

section \<open>Virtual machine (vm.h, vm.c)\<close>

datatype InterpretResult = INTERPRET_OK | INTERPRET_COMPILE_ERROR | INTERPRET_RUNTIME_ERROR

text \<open>
  What C leaves undefined is a result of its own in the model: a read or write outside
  the stack, the code or the constant pool, a \<open>NULL\<close> or dangling pointer followed,
  and a number read from a union that holds a boolean or a pointer.
\<close>

datatype Undefined =
    Stack_underflow
  | Ip_outside_code
  | Constant_outside_pool
  | Null_dereference
  | Use_after_free
  | Double_free
  | Indeterminate_number

datatype Step = Next World | Stop InterpretResult World | Undef Undefined

definition andThen :: "Undefined + 'a \<Rightarrow> ('a \<Rightarrow> Step) \<Rightarrow> Step" where
  "andThen m f = (case m of Inl u \<Rightarrow> Undef u | Inr x \<Rightarrow> f x)"

definition resetStack :: "World \<Rightarrow> World" where
  "resetStack w = w\<lparr>vm := (vm w)\<lparr>stack := []\<rparr>\<rparr>"

definition stack_access :: "World \<Rightarrow> Undefined option" where
  "stack_access w =
     (case stack_buffer (vm w) of
        Live \<Rightarrow> None
      | Null \<Rightarrow> Some Null_dereference
      | Dangling \<Rightarrow> Some Use_after_free)"

text \<open>
  \<open>push\<close> grows the buffer with \<open>realloc\<close> when the capacity is used up, then
  writes the slot \<open>stackTop\<close>.
\<close>

definition push :: "Value \<Rightarrow> World \<Rightarrow> Undefined + World" where
  "push v w =
     (let m = vm w;
          grow = (stackCapacity m < int (length (stack m)) + 1);
          oldCap = stackCapacity m;
          m1 = (if grow
                then m\<lparr>stackCapacity := (if oldCap < 8 then 8 else oldCap * 2),
                       stack_buffer := Live\<rparr>
                else m)
      in if grow \<and> stack_buffer m = Dangling then Inl Use_after_free
         else (case stack_access (w\<lparr>vm := m1\<rparr>) of
                 Some u \<Rightarrow> Inl u
               | None \<Rightarrow> Inr (w\<lparr>vm := m1\<lparr>stack := v # stack m1\<rparr>\<rparr>)))"

definition pop :: "World \<Rightarrow> Undefined + (Value \<times> World)" where
  "pop w =
     (case stack (vm w) of
        [] \<Rightarrow> Inl Stack_underflow
      | v # vs \<Rightarrow>
          (case stack_access w of
             Some u \<Rightarrow> Inl u
           | None \<Rightarrow> Inr (v, w\<lparr>vm := (vm w)\<lparr>stack := vs\<rparr>\<rparr>)))"

definition peek :: "nat \<Rightarrow> World \<Rightarrow> Undefined + Value" where
  "peek distance w =
     (if distance < length (stack (vm w))
      then (case stack_access w of
              Some u \<Rightarrow> Inl u
            | None \<Rightarrow> Inr (stack (vm w) ! distance))
      else Inl Stack_underflow)"

text \<open>Global variables: the first \<open>globalCount\<close> entries of the array \<open>globals\<close>.\<close>

definition MAX_GLOBALS :: nat where
  "MAX_GLOBALS = 256"

definition getConstantName :: "Chunk \<Rightarrow> nat \<Rightarrow> Undefined + ObjString option" where
  "getConstantName c index =
     (if index < length (constants c)
      then (case constants c ! index of OBJ_VAL s \<Rightarrow> Inr (Some s) | _ \<Rightarrow> Inr None)
      else Inl Constant_outside_pool)"

fun stringsEqual :: "ObjString option \<Rightarrow> ObjString option \<Rightarrow> bool" where
  "stringsEqual None None = True"
| "stringsEqual None (Some b) = False"
| "stringsEqual (Some a) None = False"
| "stringsEqual (Some a) (Some b) =
     (if addr a = addr b then True
      else if length (chars a) \<noteq> length (chars b) then False
      else take (length (chars a)) (chars a) = take (length (chars a)) (chars b))"

fun getGlobal :: "ObjString option \<Rightarrow> (ObjString option \<times> Value) list \<Rightarrow> Value option" where
  "getGlobal name [] = None"
| "getGlobal name ((n, v) # gs) = (if stringsEqual n name then Some v else getGlobal name gs)"

fun overwriteGlobal ::
  "ObjString option \<Rightarrow> Value \<Rightarrow> (ObjString option \<times> Value) list
     \<Rightarrow> (ObjString option \<times> Value) list option" where
  "overwriteGlobal name val [] = None"
| "overwriteGlobal name val ((n, v) # gs) =
     (if stringsEqual n name then Some ((n, val) # gs)
      else map_option (\<lambda>gs'. (n, v) # gs') (overwriteGlobal name val gs))"

definition setGlobal ::
  "ObjString option \<Rightarrow> Value \<Rightarrow> (ObjString option \<times> Value) list
     \<Rightarrow> (ObjString option \<times> Value) list" where
  "setGlobal name val gs =
     (case overwriteGlobal name val gs of
        Some gs' \<Rightarrow> gs'
      | None \<Rightarrow> (if length gs < MAX_GLOBALS then gs @ [(name, val)] else gs))"

fun isTruthy :: "Value \<Rightarrow> bool" where
  "isTruthy NIL_VAL = False"
| "isTruthy (BOOL_VAL b) = b"
| "isTruthy v = True"

definition runtimeError :: "string \<Rightarrow> World \<Rightarrow> World" where
  "runtimeError message w = w\<lparr>err := err w @ [Runtime_diag message]\<rparr>"

definition undefined_variable :: "ObjString \<Rightarrow> string" where
  "undefined_variable name = ''Undefined variable '' @ [CHR 0x27] @ chars name @ [CHR 0x27] @ ''.''"

definition READ_BYTE :: "World \<Rightarrow> Undefined + (nat \<times> World)" where
  "READ_BYTE w =
     (let i = ip (vm w) in
      if 0 \<le> i \<and> i < count (chunk w)
      then Inr (code (chunk w) ! nat i, w\<lparr>vm := (vm w)\<lparr>ip := i + 1\<rparr>\<rparr>)
      else Inl Ip_outside_code)"

definition READ_SHORT :: "World \<Rightarrow> Undefined + (int \<times> World)" where
  "READ_SHORT w =
     (let i = ip (vm w) in
      if 0 \<le> i \<and> i + 1 < count (chunk w)
      then Inr (int (code (chunk w) ! nat i) * 256 + int (code (chunk w) ! nat (i + 1)),
                w\<lparr>vm := (vm w)\<lparr>ip := i + 2\<rparr>\<rparr>)
      else Inl Ip_outside_code)"

definition READ_CONSTANT :: "World \<Rightarrow> Undefined + (Value \<times> World)" where
  "READ_CONSTANT w =
     (case READ_BYTE w of
        Inl u \<Rightarrow> Inl u
      | Inr (k, w1) \<Rightarrow>
          (if k < length (constants (chunk w1)) then Inr (constants (chunk w1) ! k, w1)
           else Inl Constant_outside_pool))"

definition READ_NAME :: "World \<Rightarrow> Undefined + (ObjString option \<times> World)" where
  "READ_NAME w =
     (case READ_BYTE w of
        Inl u \<Rightarrow> Inl u
      | Inr (k, w1) \<Rightarrow>
          (case getConstantName (chunk w1) k of Inl u \<Rightarrow> Inl u | Inr name \<Rightarrow> Inr (name, w1)))"

text \<open>
  The macro \<open>BINARY_OP(op)\<close>; \<open>f a b\<close> is \<open>NUMBER_VAL(a op b)\<close>.  For \<open>>\<close> and \<open><\<close>
  the C value of \<open>a op b\<close> is the \<open>int\<close> 1 or 0, which \<open>NUMBER_VAL\<close> stores as a number.
\<close>

definition BINARY_OP :: "(rat \<Rightarrow> rat \<Rightarrow> Value) \<Rightarrow> World \<Rightarrow> Step" where
  "BINARY_OP f w =
     andThen (peek 0 w) (\<lambda>p0.
       if \<not> IS_NUMBER p0
       then Stop INTERPRET_RUNTIME_ERROR (runtimeError ''Operands must be numbers.'' w)
       else andThen (peek 1 w) (\<lambda>p1.
         if \<not> IS_NUMBER p1
         then Stop INTERPRET_RUNTIME_ERROR (runtimeError ''Operands must be numbers.'' w)
         else andThen (pop w) (\<lambda>(vb, w1).
           andThen (pop w1) (\<lambda>(va, w2).
             (case (AS_NUMBER va, AS_NUMBER vb) of
                (Some a, Some b) \<Rightarrow> andThen (push (f a b) w2) Next
              | _ \<Rightarrow> Undef Indeterminate_number)))))"

definition greater :: "rat \<Rightarrow> rat \<Rightarrow> Value" where
  "greater a b = NUMBER_VAL (if a > b then 1 else 0)"

definition less_than :: "rat \<Rightarrow> rat \<Rightarrow> Value" where
  "less_than a b = NUMBER_VAL (if a < b then 1 else 0)"

definition op_get_global :: "World \<Rightarrow> Step" where
  "op_get_global w =
     andThen (READ_NAME w) (\<lambda>(name, w1).
       case getGlobal name (globals w1) of
         None \<Rightarrow>
           (case name of
              None \<Rightarrow> Undef Null_dereference
            | Some s \<Rightarrow> Stop INTERPRET_RUNTIME_ERROR (runtimeError (undefined_variable s) w1))
       | Some val \<Rightarrow> andThen (push val w1) Next)"

definition op_define_global :: "World \<Rightarrow> Step" where
  "op_define_global w =
     andThen (READ_NAME w) (\<lambda>(name, w1).
       andThen (peek 0 w1) (\<lambda>val.
         andThen (pop (w1\<lparr>globals := setGlobal name val (globals w1)\<rparr>)) (\<lambda>(v, w2). Next w2)))"

definition op_set_global :: "World \<Rightarrow> Step" where
  "op_set_global w =
     andThen (READ_NAME w) (\<lambda>(name, w1).
       andThen (pop w1) (\<lambda>(v, w2).
         case getGlobal name (globals w2) of
           None \<Rightarrow>
             (case name of
                None \<Rightarrow> Undef Null_dereference
              | Some s \<Rightarrow> Stop INTERPRET_RUNTIME_ERROR (runtimeError (undefined_variable s) w2))
         | Some old \<Rightarrow> andThen (push v (w2\<lparr>globals := setGlobal name v (globals w2)\<rparr>)) Next))"

definition op_equal :: "World \<Rightarrow> Step" where
  "op_equal w =
     andThen (pop w) (\<lambda>(b, w1).
       andThen (pop w1) (\<lambda>(a, w2).
         andThen (push (BOOL_VAL (valuesEqual a b)) w2) Next))"

definition op_add :: "World \<Rightarrow> Step" where
  "op_add w =
     andThen (peek 0 w) (\<lambda>p0.
       if IS_NUMBER p0
       then andThen (peek 1 w) (\<lambda>p1.
         if IS_NUMBER p1
         then andThen (pop w) (\<lambda>(vb, w1).
           andThen (pop w1) (\<lambda>(va, w2).
             (case (AS_NUMBER va, AS_NUMBER vb) of
                (Some a, Some b) \<Rightarrow> andThen (push (NUMBER_VAL (a + b)) w2) Next
              | _ \<Rightarrow> Undef Indeterminate_number)))
         else Stop INTERPRET_RUNTIME_ERROR (runtimeError ''Operands must be numbers.'' w))
       else Stop INTERPRET_RUNTIME_ERROR (runtimeError ''Operands must be numbers.'' w))"

text \<open>
  \<open>OP_DIVIDE\<close> compares \<open>AS_NUMBER(peek(0))\<close> with 0 before \<open>BINARY_OP\<close> looks at
  the tags.
\<close>

definition op_divide :: "World \<Rightarrow> Step" where
  "op_divide w =
     andThen (peek 0 w) (\<lambda>p0.
       case AS_NUMBER p0 of
         None \<Rightarrow> Undef Indeterminate_number
       | Some d \<Rightarrow>
           (if d = 0
            then Stop INTERPRET_RUNTIME_ERROR (runtimeError ''Division by zero.'' w)
            else BINARY_OP (\<lambda>a b. NUMBER_VAL (a / b)) w))"

definition op_not :: "World \<Rightarrow> Step" where
  "op_not w = andThen (pop w) (\<lambda>(v, w1). andThen (push (BOOL_VAL (\<not> isTruthy v)) w1) Next)"

definition op_negate :: "World \<Rightarrow> Step" where
  "op_negate w =
     andThen (peek 0 w) (\<lambda>p0.
       if \<not> IS_NUMBER p0
       then Stop INTERPRET_RUNTIME_ERROR (runtimeError ''Operand must be a number.'' w)
       else andThen (pop w) (\<lambda>(v, w1).
         case AS_NUMBER v of
           None \<Rightarrow> Undef Indeterminate_number
         | Some a \<Rightarrow> andThen (push (NUMBER_VAL (- a)) w1) Next))"

definition op_print :: "World \<Rightarrow> Step" where
  "op_print w = andThen (pop w) (\<lambda>(v, w1). Next (w1\<lparr>out := out w1 @ [v]\<rparr>))"

definition op_jump :: "World \<Rightarrow> Step" where
  "op_jump w =
     andThen (READ_SHORT w) (\<lambda>(offset, w1). Next (w1\<lparr>vm := (vm w1)\<lparr>ip := ip (vm w1) + offset\<rparr>\<rparr>))"

definition op_jump_if_false :: "World \<Rightarrow> Step" where
  "op_jump_if_false w =
     andThen (READ_SHORT w) (\<lambda>(offset, w1).
       andThen (peek 0 w1) (\<lambda>p0.
         if \<not> isTruthy p0
         then andThen (pop w1) (\<lambda>(v, w2). Next (w2\<lparr>vm := (vm w2)\<lparr>ip := ip (vm w2) + offset\<rparr>\<rparr>))
         else Next w1))"

definition op_loop :: "World \<Rightarrow> Step" where
  "op_loop w =
     andThen (READ_SHORT w) (\<lambda>(offset, w1). Next (w1\<lparr>vm := (vm w1)\<lparr>ip := ip (vm w1) - offset\<rparr>\<rparr>))"

text \<open>
  One turn of the dispatch loop of \<open>run\<close>.  The \<open>switch\<close> has no case for
  \<open>OP_GET_LOCAL\<close>, \<open>OP_SET_LOCAL\<close> or a byte above \<open>OP_RETURN\<close>, and the loop goes on
  after such a byte.
\<close>

definition step :: "World \<Rightarrow> Step" where
  "step w =
     andThen (READ_BYTE w) (\<lambda>(instruction, w1).
       if instruction = OP_CONSTANT then
         andThen (READ_CONSTANT w1) (\<lambda>(constant, w2). andThen (push constant w2) Next)
       else if instruction = OP_NIL then andThen (push NIL_VAL w1) Next
       else if instruction = OP_TRUE then andThen (push (BOOL_VAL True) w1) Next
       else if instruction = OP_FALSE then andThen (push (BOOL_VAL False) w1) Next
       else if instruction = OP_POP then andThen (pop w1) (\<lambda>(v, w2). Next w2)
       else if instruction = OP_GET_GLOBAL then op_get_global w1
       else if instruction = OP_DEFINE_GLOBAL then op_define_global w1
       else if instruction = OP_SET_GLOBAL then op_set_global w1
       else if instruction = OP_EQUAL then op_equal w1
       else if instruction = OP_GREATER then BINARY_OP greater w1
       else if instruction = OP_LESS then BINARY_OP less_than w1
       else if instruction = OP_ADD then op_add w1
       else if instruction = OP_SUBTRACT then BINARY_OP (\<lambda>a b. NUMBER_VAL (a - b)) w1
       else if instruction = OP_MULTIPLY then BINARY_OP (\<lambda>a b. NUMBER_VAL (a * b)) w1
       else if instruction = OP_DIVIDE then op_divide w1
       else if instruction = OP_NOT then op_not w1
       else if instruction = OP_NEGATE then op_negate w1
       else if instruction = OP_PRINT then op_print w1
       else if instruction = OP_JUMP then op_jump w1
       else if instruction = OP_JUMP_IF_FALSE then op_jump_if_false w1
       else if instruction = OP_LOOP then op_loop w1
       else if instruction = OP_RETURN then Stop INTERPRET_OK w1
       else Next w1)"

datatype Outcome = Returned InterpretResult | Undefined_behaviour Undefined

text \<open>
  \<open>run\<close> takes fuel, one unit per instruction; \<open>None\<close> is a run the fuel did not
  suffice for.  Where the behaviour is undefined the state is the one before the
  instruction.
\<close>

fun run :: "nat \<Rightarrow> World \<Rightarrow> (Outcome \<times> World) option" where
  "run 0 w = None"
| "run (Suc n) w =
     (case step w of
        Next w1 \<Rightarrow> run n w1
      | Stop r w1 \<Rightarrow> Some (Returned r, w1)
      | Undef u \<Rightarrow> Some (Undefined_behaviour u, w))"

definition initVM :: "World \<Rightarrow> World" where
  "initVM w = (resetStack w)\<lparr>globals := []\<rparr>"

definition freeVM :: "World \<Rightarrow> Undefined + World" where
  "freeVM w =
     (case stack_buffer (vm w) of
        Null \<Rightarrow> Inr w
      | Live \<Rightarrow> Inr (w\<lparr>vm := (vm w)\<lparr>stack_buffer := Dangling\<rparr>\<rparr>)
      | Dangling \<Rightarrow> Inl Double_free)"

definition freeChunk :: "World \<Rightarrow> World" where
  "freeChunk w = w\<lparr>chunk := initChunk\<rparr>"

definition interpret_vm :: "nat \<Rightarrow> string \<Rightarrow> World \<Rightarrow> (Outcome \<times> World) option" where
  "interpret_vm fuel source w =
     do {
       (ok, w1) \<leftarrow> compile fuel source (w\<lparr>chunk := initChunk\<rparr>);
       if \<not> ok then Some (Returned INTERPRET_COMPILE_ERROR, freeChunk w1)
       else do {
         (r, w2) \<leftarrow> run fuel (w1\<lparr>vm := (vm w1)\<lparr>ip := 0\<rparr>\<rparr>);
         Some (case r of Returned res \<Rightarrow> (r, freeChunk w2) | Undefined_behaviour u \<Rightarrow> (r, w2))
       }
     }"

section \<open>Invariants and notions used by the properties\<close>

text \<open>
  The stack of the virtual machine is usable when \<open>vm.stack\<close> is a live buffer, or
  still \<open>NULL\<close> with capacity 0 and nothing pushed, as at process start.
  \<open>pushed v w\<close> is the state after a \<open>push\<close> that succeeded, and \<open>jumped d w\<close>
  moves \<open>ip\<close> by \<open>d\<close>.

  Two \<open>ObjString\<close> pointers that are equal point to the same bytes:
  \<open>heap_consistent name gs\<close> says so for \<open>name\<close> and the names of the table \<open>gs\<close>.
\<close>

definition stack_usable :: "World \<Rightarrow> bool" where
  "stack_usable w =
     (case stack_buffer (vm w) of
        Live \<Rightarrow> True
      | Null \<Rightarrow> stackCapacity (vm w) = 0 \<and> stack (vm w) = []
      | Dangling \<Rightarrow> False)"

definition pushed :: "Value \<Rightarrow> World \<Rightarrow> World" where
  "pushed v w =
     (let m = vm w;
          cap = (if stackCapacity m < int (length (stack m)) + 1
                 then (if stackCapacity m < 8 then 8 else stackCapacity m * 2)
                 else stackCapacity m)
      in w\<lparr>vm := m\<lparr>stackCapacity := cap, stack_buffer := Live, stack := v # stack m\<rparr>\<rparr>)"

definition heap_consistent :: "ObjString \<Rightarrow> (ObjString option \<times> Value) list \<Rightarrow> bool" where
  "heap_consistent name gs =
     list_all (\<lambda>(n, v). case n of None \<Rightarrow> True
                 | Some s \<Rightarrow> (if addr s = addr name then chars s = chars name else True)) gs"

definition jumped :: "int \<Rightarrow> World \<Rightarrow> World" where
  "jumped d w = w\<lparr>vm := (vm w)\<lparr>ip := ip (vm w) + d\<rparr>\<rparr>"

text \<open>
  \<open>compiled w source\<close> is the state in which \<open>interpret\<close> enters \<open>run\<close>, and
  \<open>steps n\<close> runs \<open>n\<close> instructions from a state.
\<close>

definition compiled :: "World \<Rightarrow> string \<Rightarrow> World" where
  "compiled w source =
     (case compile 100 source (w\<lparr>chunk := initChunk\<rparr>) of
        Some (ok, w1) \<Rightarrow> w1\<lparr>vm := (vm w1)\<lparr>ip := 0\<rparr>\<rparr>
      | None \<Rightarrow> w)"

fun steps :: "nat \<Rightarrow> World \<Rightarrow> World" where
  "steps 0 w = w"
| "steps (Suc n) w = (case step w of Next w1 \<Rightarrow> steps n w1 | Stop r w1 \<Rightarrow> w | Undef u \<Rightarrow> w)"

text \<open>A table of 256 globals with the names \<open>Aa\<close>, \<open>Ab\<close>, ..., \<open>Pp\<close>.\<close>

definition full_table :: "(ObjString option \<times> Value) list" where
  "full_table =
     map (\<lambda>i. (Some \<lparr>addr = i, chars = [char_of (65 + i div 16), char_of (97 + i mod 16)]\<rparr>, NIL_VAL))
       [0..<256]"

text \<open>Two allocations of the spelling \<open>a\<close>.\<close>

definition obj_a0 :: ObjString where
  "obj_a0 = \<lparr>addr = 0, chars = ''a''\<rparr>"

definition obj_a2 :: ObjString where
  "obj_a2 = \<lparr>addr = 2, chars = ''a''\<rparr>"

text \<open>
  \<open>at_loop loopStart w\<close>: the compiler has just written the \<open>OP_LOOP\<close> of a loop
  that started at \<open>loopStart\<close>, and the machine stands in front of that instruction.
\<close>

definition at_loop :: "int \<Rightarrow> World \<Rightarrow> World" where
  "at_loop loopStart w =
     (let w1 = emitLoop loopStart w in w1\<lparr>vm := (vm w1)\<lparr>ip := count (chunk w)\<rparr>\<rparr>)"

text \<open>The stack holding the values \<open>vs\<close>, top first, in a live buffer.\<close>

definition with_stack :: "Value list \<Rightarrow> World \<Rightarrow> World" where
  "with_stack vs w = w\<lparr>vm := (vm w)\<lparr>stack := vs, stack_buffer := Live\<rparr>\<rparr>"

text \<open>
  \<open>initVM(); interpret(source); freeVM(); initVM(); interpret(source);\<close> with both
  results; the second is missing when \<open>freeVM\<close> was undefined already.
\<close>

definition interpret_free_init_interpret ::
  "nat \<Rightarrow> string \<Rightarrow> World \<Rightarrow> ((Outcome \<times> World) \<times> (Undefined + Outcome \<times> World)) option" where
  "interpret_free_init_interpret fuel source w =
     do {
       (r1, w1) \<leftarrow> interpret_vm fuel source (initVM w);
       case freeVM w1 of
         Inl u \<Rightarrow> Some ((r1, w1), Inl u)
       | Inr w2 \<Rightarrow>
           do {
             (r2, w3) \<leftarrow> interpret_vm fuel source (initVM w2);
             Some ((r1, w1), Inr (r2, w3))
           }
     }"

text \<open>A chunk holding 255 constants already.\<close>

definition chunk255 :: Chunk where
  "chunk255 = \<lparr>code = [], lines = [], constants = replicate 255 NIL_VAL\<rparr>"

text \<open>
  States of the machine in front of an \<open>OP_GET_GLOBAL\<close> and an \<open>OP_SET_GLOBAL\<close>, with the names the
  instructions refer to.
\<close>

definition at_get :: World where
  "at_get = compiled (initVM process_start) ''print undefined_var;''"

definition at_set :: World where
  "at_set = steps 3 (compiled (initVM process_start) ''var a = 1; a = 2;'')"

definition name_get :: ObjString where
  "name_get = \<lparr>addr = 0, chars = ''undefined_var''\<rparr>"

definition name_set :: ObjString where
  "name_set = \<lparr>addr = 1, chars = ''a''\<rparr>"

definition crowded :: World where
  "crowded = (initVM process_start)\<lparr>next_addr := 256, globals := full_table\<rparr>"

text \<open>
  The program \<open>var q = 1; print q;\<close> compiled in a process whose 256 earlier
  allocations are the names of the table; \<open>after_constant g\<close> is its state after the
  first instruction when the table is \<open>g\<close>.
\<close>

definition name_q0 :: ObjString where
  "name_q0 = \<lparr>addr = 256, chars = ''q''\<rparr>"

definition name_q1 :: ObjString where
  "name_q1 = \<lparr>addr = 257, chars = ''q''\<rparr>"

definition after_constant :: "(ObjString option \<times> Value) list \<Rightarrow> World" where
  "after_constant g =
     \<lparr>scanner = \<lparr>scan_start = [], scan_current = [], scan_line = 1\<rparr>,
      parser = \<lparr>current = \<lparr>ttype = TOKEN_EOF, lexeme = [], tline = 1\<rparr>,
                previous = \<lparr>ttype = TOKEN_EOF, lexeme = [], tline = 1\<rparr>,
                hadError = False, panicMode = False\<rparr>,
      chunk = \<lparr>code = [OP_CONSTANT, 1, OP_DEFINE_GLOBAL, 0, OP_GET_GLOBAL, 2, OP_PRINT, OP_RETURN],
               lines = [1, 1, 1, 1, 1, 1, 1, 1],
               constants = [OBJ_VAL name_q0, NUMBER_VAL 1, OBJ_VAL name_q1]\<rparr>,
      vm = \<lparr>ip = 2, stack = [NUMBER_VAL 1], stackCapacity = 8, stack_buffer = Live\<rparr>,
      globals = g, next_addr = 258, out = [], err = []\<rparr>"

definition at_define :: World where
  "at_define = after_constant full_table"

definition at_get_q :: World where
  "at_get_q = at_define\<lparr>vm := (vm at_define)\<lparr>ip := 4, stack := []\<rparr>\<rparr>"

section \<open>Binary operators: one level, left to right\<close>

text \<open>
  The table of the specification: each binary operator and the bytes emitted for it
  after its right operand.
\<close>

definition binary_operators :: "(TokenType \<times> nat list) list" where
  "binary_operators =
     [(TOKEN_STAR, [OP_MULTIPLY]), (TOKEN_SLASH, [OP_DIVIDE]),
      (TOKEN_PLUS, [OP_ADD]), (TOKEN_MINUS, [OP_SUBTRACT]),
      (TOKEN_EQUAL_EQUAL, [OP_EQUAL]), (TOKEN_BANG_EQUAL, [OP_EQUAL, OP_NOT]),
      (TOKEN_LESS, [OP_LESS]), (TOKEN_LESS_EQUAL, [OP_GREATER, OP_NOT]),
      (TOKEN_GREATER, [OP_GREATER]), (TOKEN_GREATER_EQUAL, [OP_LESS, OP_NOT])]"

definition emit_all :: "nat list \<Rightarrow> World \<Rightarrow> World" where
  "emit_all bs w = foldl (\<lambda>w' b. emitByte b (pline w) w') w bs"

text \<open>The parser standing on the \<open>+\<close> of the source text \<open>+ 2;\<close>.\<close>

definition at_plus :: World where
  "at_plus = advance (process_start\<lparr>scanner := initScanner ''+ 2;''\<rparr>)"

lemma pline_emitByte [simp]: "pline (emitByte b l w) = pline w"
  by (simp add: pline_def emitByte_def)

lemma expression_loop_binary:
  assumes "(ty, ops) \<in> set binary_operators" and "ctype w = ty"
  shows "expression_loop (Suc n) w =
           Option.bind (parsePrecedence1 n (advance w)) (\<lambda>w1. expression_loop n (emit_all ops w1))"
  using assms
  by (auto simp: binary_operators_def match_def ctype_def emit_all_def)

lemma print_1_plus_2_times_3_code:
  "map_option (\<lambda>(ok, w). (ok, code (chunk w), constants (chunk w)))
     (compile 100 ''print 1 + 2 * 3;'' process_start)
   = Some (True,
       [OP_CONSTANT, 0, OP_CONSTANT, 1, OP_ADD, OP_CONSTANT, 2, OP_MULTIPLY, OP_PRINT, OP_RETURN],
       [NUMBER_VAL 1, NUMBER_VAL 2, NUMBER_VAL 3])"
  by code_simp

lemma print_1_plus_2_times_3_run:
  "map_option (\<lambda>(r, w). (r, out w, err w))
     (interpret_vm 100 ''print 1 + 2 * 3;'' (initVM process_start))
   = Some (Returned INTERPRET_OK, [NUMBER_VAL 9], [])"
  by code_simp

text \<open>
  C5.  Every binary operator is handled in the one loop of \<open>expression\<close>: whichever
  operator the parser stands on, its right operand is a single \<open>parsePrecedence1\<close>
  (a unary or primary expression), the operator's bytes follow at once, and the loop
  goes on with the next operator; no operator binds tighter than another, and a chain
  groups to the left.  So \<open>print 1 + 2 * 3;\<close> compiles to the code of \<open>(1 + 2) * 3\<close>,
  and interpreting it returns \<open>INTERPRET_OK\<close> having printed 9.
\<close>

theorem C5_binary_operators_flat_left_assoc:
  "(\<forall>ty ops w n. (ty, ops) \<in> set binary_operators \<longrightarrow> ctype w = ty \<longrightarrow>
      expression_loop (Suc n) w =
        Option.bind (parsePrecedence1 n (advance w)) (\<lambda>w1. expression_loop n (emit_all ops w1)))
   \<and> map_option (\<lambda>(ok, w). (ok, code (chunk w), constants (chunk w)))
         (compile 100 ''print 1 + 2 * 3;'' process_start)
       = Some (True,
           [OP_CONSTANT, 0, OP_CONSTANT, 1, OP_ADD, OP_CONSTANT, 2, OP_MULTIPLY, OP_PRINT, OP_RETURN],
           [NUMBER_VAL 1, NUMBER_VAL 2, NUMBER_VAL 3])
   \<and> map_option (\<lambda>(r, w). (r, out w, err w))
         (interpret_vm 100 ''print 1 + 2 * 3;'' (initVM process_start))
       = Some (Returned INTERPRET_OK, [NUMBER_VAL 9], [])"
  using expression_loop_binary print_1_plus_2_times_3_code print_1_plus_2_times_3_run
  by blast

theorem C5_binary_operators_flat_left_assoc_witness:
  "(TOKEN_PLUS, [OP_ADD]) \<in> set binary_operators
   \<and> ctype at_plus = TOKEN_PLUS
   \<and> expression_loop (Suc 3) at_plus =
       Option.bind (parsePrecedence1 3 (advance at_plus)) (\<lambda>w1. expression_loop 3 (emit_all [OP_ADD] w1))
   \<and> map_option (\<lambda>w. code (chunk w)) (expression_loop (Suc 3) at_plus) = Some [OP_CONSTANT, 0, OP_ADD]"
proof -
  have h1: "(TOKEN_PLUS, [OP_ADD]) \<in> set binary_operators"
    by (simp add: binary_operators_def)
  have h2: "ctype at_plus = TOKEN_PLUS"
    by code_simp
  have h3: "map_option (\<lambda>w. code (chunk w)) (expression_loop (Suc 3) at_plus) = Some [OP_CONSTANT, 0, OP_ADD]"
    by code_simp
  from C5_binary_operators_flat_left_assoc h1 h2
  have "expression_loop (Suc 3) at_plus =
       Option.bind (parsePrecedence1 3 (advance at_plus)) (\<lambda>w1. expression_loop 3 (emit_all [OP_ADD] w1))"
    by blast
  with h1 h2 h3 show ?thesis by blast
qed

section \<open>The machine's instructions on a usable stack\<close>

lemma push_usable: "stack_usable w \<Longrightarrow> push v w = Inr (pushed v w)"
  by (auto simp: stack_usable_def push_def pushed_def Let_def stack_access_def split: Buffer.splits)

lemma stack_usable_pushed [simp]: "stack_usable (pushed v w)"
  by (simp add: stack_usable_def pushed_def Let_def)

lemma pop_usable:
  "stack_usable w \<Longrightarrow> stack (vm w) = v # rest \<Longrightarrow>
     pop w = Inr (v, w\<lparr>vm := (vm w)\<lparr>stack := rest\<rparr>\<rparr>)"
  by (auto simp: stack_usable_def pop_def stack_access_def split: Buffer.splits)

lemma peek_usable:
  "stack_usable w \<Longrightarrow> stack (vm w) = v # rest \<Longrightarrow> peek 0 w = Inr v"
  by (auto simp: stack_usable_def peek_def stack_access_def split: Buffer.splits)

lemma READ_BYTE_at:
  "0 \<le> ip (vm w) \<Longrightarrow> ip (vm w) < count (chunk w) \<Longrightarrow>
     READ_BYTE w = Inr (code (chunk w) ! nat (ip (vm w)), jumped 1 w)"
  by (simp add: READ_BYTE_def jumped_def Let_def)

lemma READ_NAME_at:
  assumes "0 \<le> ip (vm w)" "ip (vm w) < count (chunk w)"
    and "code (chunk w) ! nat (ip (vm w)) = k" "k < length (constants (chunk w))"
    and "constants (chunk w) ! k = OBJ_VAL name"
  shows "READ_NAME w = Inr (Some name, jumped 1 w)"
  using assms by (simp add: READ_NAME_def READ_BYTE_at getConstantName_def jumped_def)

lemma jumped_jumped [simp]: "jumped a (jumped b w) = jumped (b + a) w"
  by (simp add: jumped_def)

lemma jumped_fields [simp]:
  "chunk (jumped d w) = chunk w" "globals (jumped d w) = globals w"
  "ip (vm (jumped d w)) = ip (vm w) + d" "stack (vm (jumped d w)) = stack (vm w)"
  "stack_usable (jumped d w) = stack_usable w"
  by (simp_all add: jumped_def stack_usable_def split: Buffer.splits)

lemma step_get_global:
  assumes "stack_usable w"
    and "0 \<le> ip (vm w)" "ip (vm w) + 1 < count (chunk w)"
    and "code (chunk w) ! nat (ip (vm w)) = OP_GET_GLOBAL"
    and "code (chunk w) ! nat (ip (vm w) + 1) = k" "k < length (constants (chunk w))"
    and "constants (chunk w) ! k = OBJ_VAL name"
  shows "step w =
     (case getGlobal (Some name) (globals w) of
        None \<Rightarrow> Stop INTERPRET_RUNTIME_ERROR (runtimeError (undefined_variable name) (jumped 2 w))
      | Some val \<Rightarrow> Next (pushed val (jumped 2 w)))"
proof -
  have rb: "READ_BYTE w = Inr (OP_GET_GLOBAL, jumped 1 w)"
    using assms by (simp add: READ_BYTE_at)
  have rn: "READ_NAME (jumped 1 w) = Inr (Some name, jumped 2 w)"
    using assms by (simp add: READ_NAME_at)
  show ?thesis
    using assms(1)
    by (simp add: step_def rb andThen_def opcodes op_get_global_def rn push_usable
        split: option.splits)
qed

lemma step_set_global:
  assumes "stack_usable w" and "stack (vm w) = v # rest"
    and "0 \<le> ip (vm w)" "ip (vm w) + 1 < count (chunk w)"
    and "code (chunk w) ! nat (ip (vm w)) = OP_SET_GLOBAL"
    and "code (chunk w) ! nat (ip (vm w) + 1) = k" "k < length (constants (chunk w))"
    and "constants (chunk w) ! k = OBJ_VAL name"
  shows "step w =
     (case getGlobal (Some name) (globals w) of
        None \<Rightarrow> Stop INTERPRET_RUNTIME_ERROR
                 (runtimeError (undefined_variable name)
                    ((jumped 2 w)\<lparr>vm := (vm (jumped 2 w))\<lparr>stack := rest\<rparr>\<rparr>))
      | Some old \<Rightarrow> Next (pushed v
                 ((jumped 2 w)\<lparr>vm := (vm (jumped 2 w))\<lparr>stack := rest\<rparr>,
                                globals := setGlobal (Some name) v (globals w)\<rparr>)))"
proof -
  have rb: "READ_BYTE w = Inr (OP_SET_GLOBAL, jumped 1 w)"
    using assms by (simp add: READ_BYTE_at)
  have rn: "READ_NAME (jumped 1 w) = Inr (Some name, jumped 2 w)"
    using assms by (simp add: READ_NAME_at)
  have pp: "pop (jumped 2 w) = Inr (v, (jumped 2 w)\<lparr>vm := (vm (jumped 2 w))\<lparr>stack := rest\<rparr>\<rparr>)"
    using assms by (simp add: pop_usable)
  have us: "stack_usable ((jumped 2 w)\<lparr>vm := (vm (jumped 2 w))\<lparr>stack := rest\<rparr>,
                                globals := g\<rparr>)" for g
    using assms(1,2) by (auto simp: stack_usable_def jumped_def split: Buffer.splits)
  show ?thesis
    by (simp add: step_def rb andThen_def opcodes op_set_global_def rn pp push_usable [OF us]
        split: option.splits)
qed

lemma step_define_global:
  assumes "stack_usable w" and "stack (vm w) = v # rest"
    and "0 \<le> ip (vm w)" "ip (vm w) + 1 < count (chunk w)"
    and "code (chunk w) ! nat (ip (vm w)) = OP_DEFINE_GLOBAL"
    and "code (chunk w) ! nat (ip (vm w) + 1) = k" "k < length (constants (chunk w))"
    and "constants (chunk w) ! k = OBJ_VAL name"
  shows "step w =
     Next ((jumped 2 w)\<lparr>globals := setGlobal (Some name) v (globals w),
                         vm := (vm (jumped 2 w))\<lparr>stack := rest\<rparr>\<rparr>)"
proof -
  have rb: "READ_BYTE w = Inr (OP_DEFINE_GLOBAL, jumped 1 w)"
    using assms by (simp add: READ_BYTE_at)
  have rn: "READ_NAME (jumped 1 w) = Inr (Some name, jumped 2 w)"
    using assms by (simp add: READ_NAME_at)
  have pk: "peek 0 (jumped 2 w) = Inr v"
    using assms by (simp add: peek_usable)
  have pp: "pop ((jumped 2 w)\<lparr>globals := g\<rparr>) =
      Inr (v, (jumped 2 w)\<lparr>globals := g, vm := (vm (jumped 2 w))\<lparr>stack := rest\<rparr>\<rparr>)" for g
    using assms(1,2) by (auto simp: pop_def stack_usable_def stack_access_def jumped_def split: Buffer.splits)
  show ?thesis
    by (simp add: step_def rb andThen_def opcodes op_define_global_def rn pk pp)
qed

lemma stringsEqual_refl [simp]: "stringsEqual x x"
  by (cases x) simp_all

lemma stringsEqual_chars: "chars a = chars b \<Longrightarrow> stringsEqual (Some a) (Some b)"
  by simp

lemma stringsEqual_consistent:
  assumes "case n of None \<Rightarrow> True
           | Some s \<Rightarrow> (if addr s = addr name then chars s = chars name else True)"
  shows "stringsEqual n (Some name) = (case n of None \<Rightarrow> False | Some s \<Rightarrow> chars s = chars name)"
  using assms by (cases n) (auto split: if_splits)

lemma getGlobal_cong:
  "(\<And>n v. (n, v) \<in> set gs \<Longrightarrow> stringsEqual n a = stringsEqual n b) \<Longrightarrow>
     getGlobal a gs = getGlobal b gs"
proof (induction gs)
  case Nil
  show ?case by simp
next
  case (Cons g gs)
  obtain n v where g: "g = (n, v)" by (cases g)
  have hd: "stringsEqual n a = stringsEqual n b"
    using Cons.prems [of n v] by (simp add: g)
  have tl: "getGlobal a gs = getGlobal b gs"
  proof (rule Cons.IH)
    fix m x assume "(m, x) \<in> set gs"
    then show "stringsEqual m a = stringsEqual m b"
      using Cons.prems [of m x] by simp
  qed
  show ?case by (simp add: g hd tl)
qed

lemma overwriteGlobal_None: "(overwriteGlobal a v gs = None) = (getGlobal a gs = None)"
  by (induction gs) (auto split: if_splits)

lemma overwriteGlobal_names: "overwriteGlobal a v gs = Some gs' \<Longrightarrow> map fst gs' = map fst gs"
  by (induction gs arbitrary: gs') (auto split: if_splits)

lemma getGlobal_overwrite: "overwriteGlobal a v gs = Some gs' \<Longrightarrow> getGlobal a gs' = Some v"
  by (induction gs arbitrary: gs') (auto split: if_splits)

lemma getGlobal_append:
  "getGlobal a gs = None \<Longrightarrow>
     getGlobal a (gs @ [(n, v)]) = (if stringsEqual n a then Some v else None)"
  by (induction gs) (auto split: if_splits)

lemma setGlobal_full_new:
  "length gs = MAX_GLOBALS \<Longrightarrow> getGlobal a gs = None \<Longrightarrow> setGlobal a v gs = gs"
  using overwriteGlobal_None [of a v gs] by (simp add: setGlobal_def)

lemma getGlobal_setGlobal_same:
  assumes "getGlobal a gs \<noteq> None \<or> length gs < MAX_GLOBALS"
  shows "getGlobal a (setGlobal a v gs) = Some v"
proof (cases "overwriteGlobal a v gs")
  case None
  then have "getGlobal a gs = None" by (simp add: overwriteGlobal_None)
  with assms None show ?thesis
    by (simp add: setGlobal_def getGlobal_append)
next
  case (Some gs')
  then show ?thesis by (simp add: setGlobal_def getGlobal_overwrite)
qed

lemma setGlobal_names: "set (map fst (setGlobal a v gs)) \<subseteq> insert a (set (map fst gs))"
proof (cases "overwriteGlobal a v gs")
  case None
  then show ?thesis by (auto simp: setGlobal_def)
next
  case (Some gs')
  from overwriteGlobal_names [OF this] Some show ?thesis
    by (simp add: setGlobal_def subset_insertI)
qed

lemma heap_consistent_entry:
  "heap_consistent name gs \<Longrightarrow> (n, v) \<in> set gs \<Longrightarrow>
     stringsEqual n (Some name) = (case n of None \<Rightarrow> False | Some s \<Rightarrow> chars s = chars name)"
  by (rule stringsEqual_consistent) (fastforce simp: heap_consistent_def list_all_iff split: option.splits)

lemma getGlobal_setGlobal_spelling:
  assumes eq: "chars a = chars b"
    and ca: "heap_consistent a gs" and cb: "heap_consistent b gs"
    and room: "getGlobal (Some a) gs \<noteq> None \<or> length gs < MAX_GLOBALS"
  shows "getGlobal (Some b) (setGlobal (Some a) v gs) = Some v"
proof -
  have agree: "stringsEqual n (Some b) = stringsEqual n (Some a)"
    if "(n, x) \<in> set (setGlobal (Some a) v gs)" for n x
  proof -
    from that have "n \<in> set (map fst (setGlobal (Some a) v gs))" by force
    with setGlobal_names have "n = Some a \<or> n \<in> set (map fst gs)" by blast
    then show ?thesis
    proof
      assume "n = Some a"
      then show ?thesis using eq by simp
    next
      assume "n \<in> set (map fst gs)"
      then obtain y where "(n, y) \<in> set gs" by auto
      from heap_consistent_entry [OF ca this] heap_consistent_entry [OF cb this] eq
      show ?thesis by (cases n) simp_all
    qed
  qed
  have "getGlobal (Some b) (setGlobal (Some a) v gs) = getGlobal (Some a) (setGlobal (Some a) v gs)"
    by (rule getGlobal_cong) (rule agree)
  then show ?thesis using getGlobal_setGlobal_same [OF room] by simp
qed

lemma getGlobal_spelling:
  assumes eq: "chars a = chars b"
    and ca: "heap_consistent a gs" and cb: "heap_consistent b gs"
  shows "getGlobal (Some b) gs = getGlobal (Some a) gs"
proof (rule getGlobal_cong)
  fix n v assume "(n, v) \<in> set gs"
  from heap_consistent_entry [OF ca this] heap_consistent_entry [OF cb this] eq
  show "stringsEqual n (Some b) = stringsEqual n (Some a)" by (cases n) simp_all
qed

lemma identifierConstant_fresh:
  "constants (chunk (snd (identifierConstant tok w))) =
     constants (chunk w) @ [OBJ_VAL \<lparr>addr = next_addr w, chars = lexeme tok\<rparr>]
   \<and> next_addr (snd (identifierConstant tok w)) = next_addr w + 1
   \<and> fst (identifierConstant tok w) = length (constants (chunk w)) mod 256
   \<and> parser (snd (identifierConstant tok w)) = parser w
   \<and> err (snd (identifierConstant tok w)) = err w"
  by (simp add: identifierConstant_def copyString_def addConstant_def Let_def uint8_def nat_mod_distrib)

lemma emitConstant_effect:
  "constants (chunk (emitConstant v l w)) = constants (chunk w) @ [v]
   \<and> code (chunk (emitConstant v l w)) =
       code (chunk w) @ [OP_CONSTANT, length (constants (chunk w)) mod 256]
   \<and> parser (emitConstant v l w) = parser w
   \<and> err (emitConstant v l w) = err w"
  by (simp add: emitConstant_def emitBytes_def emitByte_def writeChunk_def addConstant_def Let_def
      uint8_def nat_mod_distrib)

section \<open>Globals are found by spelling\<close>

lemma sum_a_b_code:
  "map_option (\<lambda>(ok, w). (ok, constants (chunk w)))
     (compile 100 ''var a = 5; var b = 10; print a + b;'' process_start)
   = Some (True,
       [OBJ_VAL \<lparr>addr = 0, chars = ''a''\<rparr>, NUMBER_VAL 5,
        OBJ_VAL \<lparr>addr = 1, chars = ''b''\<rparr>, NUMBER_VAL 10,
        OBJ_VAL \<lparr>addr = 2, chars = ''a''\<rparr>, OBJ_VAL \<lparr>addr = 3, chars = ''b''\<rparr>])"
  by code_simp

lemma sum_a_b_run:
  "map_option (\<lambda>(r, w). (r, out w, err w))
     (interpret_vm 100 ''var a = 5; var b = 10; print a + b;'' (initVM process_start))
   = Some (Returned INTERPRET_OK, [NUMBER_VAL 15], [])"
  by code_simp

text \<open>
  C6.  The globals table is keyed by the bytes of a name.  \<open>stringsEqual\<close> answers
  true for two \<open>ObjString\<close>s with the same bytes, whatever their addresses;
  \<open>identifierConstant\<close> allocates a new \<open>ObjString\<close> at every occurrence of an
  identifier; and a value stored under one allocation of a spelling is found under any
  other allocation of it (when the name was present or the table had room).  So
  \<open>var a = 5; var b = 10; print a + b;\<close>, whose four identifier occurrences are four
  objects, returns \<open>INTERPRET_OK\<close> having printed 15.
\<close>

theorem C6_globals_by_content:
  "(\<forall>a b. chars a = chars b \<longrightarrow> stringsEqual (Some a) (Some b))
   \<and> (\<forall>tok w. constants (chunk (snd (identifierConstant tok w))) =
          constants (chunk w) @ [OBJ_VAL \<lparr>addr = next_addr w, chars = lexeme tok\<rparr>]
        \<and> next_addr (snd (identifierConstant tok w)) = next_addr w + 1)
   \<and> (\<forall>a b v gs. chars a = chars b \<longrightarrow> heap_consistent a gs \<longrightarrow> heap_consistent b gs \<longrightarrow>
         (getGlobal (Some a) gs \<noteq> None \<or> length gs < MAX_GLOBALS) \<longrightarrow>
         getGlobal (Some b) (setGlobal (Some a) v gs) = Some v)
   \<and> map_option (\<lambda>(ok, w). (ok, constants (chunk w)))
         (compile 100 ''var a = 5; var b = 10; print a + b;'' process_start)
       = Some (True,
           [OBJ_VAL \<lparr>addr = 0, chars = ''a''\<rparr>, NUMBER_VAL 5,
            OBJ_VAL \<lparr>addr = 1, chars = ''b''\<rparr>, NUMBER_VAL 10,
            OBJ_VAL \<lparr>addr = 2, chars = ''a''\<rparr>, OBJ_VAL \<lparr>addr = 3, chars = ''b''\<rparr>])
   \<and> map_option (\<lambda>(r, w). (r, out w, err w))
         (interpret_vm 100 ''var a = 5; var b = 10; print a + b;'' (initVM process_start))
       = Some (Returned INTERPRET_OK, [NUMBER_VAL 15], [])"
proof (intro conjI allI impI)
  fix a b :: ObjString
  assume "chars a = chars b"
  then show "stringsEqual (Some a) (Some b)" by (rule stringsEqual_chars)
next
  fix tok w
  show "constants (chunk (snd (identifierConstant tok w))) =
          constants (chunk w) @ [OBJ_VAL \<lparr>addr = next_addr w, chars = lexeme tok\<rparr>]"
    using identifierConstant_fresh [of tok w] by simp
  show "next_addr (snd (identifierConstant tok w)) = next_addr w + 1"
    using identifierConstant_fresh [of tok w] by simp
next
  fix a b v gs
  assume "chars a = chars b" "heap_consistent a gs" "heap_consistent b gs"
    "getGlobal (Some a) gs \<noteq> None \<or> length gs < MAX_GLOBALS"
  then show "getGlobal (Some b) (setGlobal (Some a) v gs) = Some v"
    by (rule getGlobal_setGlobal_spelling)
qed (rule sum_a_b_code sum_a_b_run)+

theorem C6_globals_by_content_witness:
  "chars obj_a0 = chars obj_a2
   \<and> addr obj_a0 \<noteq> addr obj_a2
   \<and> stringsEqual (Some obj_a0) (Some obj_a2)
   \<and> heap_consistent obj_a0 []
   \<and> heap_consistent obj_a2 []
   \<and> length ([] :: (ObjString option \<times> Value) list) < MAX_GLOBALS
   \<and> getGlobal (Some obj_a2) (setGlobal (Some obj_a0) (NUMBER_VAL 5) []) = Some (NUMBER_VAL 5)"
proof -
  have h1: "chars obj_a0 = chars obj_a2" by (simp add: obj_a0_def obj_a2_def)
  have h2: "addr obj_a0 \<noteq> addr obj_a2" by (simp add: obj_a0_def obj_a2_def)
  have h3: "heap_consistent obj_a0 []" "heap_consistent obj_a2 []"
    by (simp_all add: heap_consistent_def)
  have h4: "length ([] :: (ObjString option \<times> Value) list) < MAX_GLOBALS"
    by (simp add: MAX_GLOBALS_def)
  from C6_globals_by_content h1 have c1: "stringsEqual (Some obj_a0) (Some obj_a2)" by blast
  from C6_globals_by_content h1 h3 h4
  have c2: "getGlobal (Some obj_a2) (setGlobal (Some obj_a0) (NUMBER_VAL 5) []) = Some (NUMBER_VAL 5)"
    by blast
  from h1 h2 h3 h4 c1 c2 show ?thesis by blast
qed

section \<open>Constant indices are cut to one byte\<close>

lemma two_more_constants:
  "map_option (\<lambda>(ok, w). (ok, code (chunk w), length (constants (chunk w)), err w))
     (compile 100 ''1; 2;'' (process_start\<lparr>chunk := chunk255\<rparr>))
   = Some (True, [OP_CONSTANT, 255, OP_POP, OP_CONSTANT, 0, OP_POP, OP_RETURN], 257, [])"
  by code_simp

text \<open>
  C8.  Adding a constant never raises a compile error, whatever the size of the pool:
  \<open>emitConstant\<close> and \<open>identifierConstant\<close> append the value, leave the parser's
  flags and the diagnostics alone, and the operand byte is the pool index modulo 256.
  On a chunk holding 255 constants, \<open>1; 2;\<close> compiles with result true: the 256th
  constant gets the operand 255, and the 257th the operand 0.
\<close>

theorem C8_constant_index_truncated:
  "constants (chunk (emitConstant v l w)) = constants (chunk w) @ [v]
   \<and> code (chunk (emitConstant v l w)) =
       code (chunk w) @ [OP_CONSTANT, length (constants (chunk w)) mod 256]
   \<and> parser (emitConstant v l w) = parser w
   \<and> err (emitConstant v l w) = err w
   \<and> fst (identifierConstant tok w) = length (constants (chunk w)) mod 256
   \<and> parser (snd (identifierConstant tok w)) = parser w
   \<and> err (snd (identifierConstant tok w)) = err w
   \<and> map_option (\<lambda>(ok, w). (ok, code (chunk w), length (constants (chunk w)), err w))
         (compile 100 ''1; 2;'' (process_start\<lparr>chunk := chunk255\<rparr>))
       = Some (True, [OP_CONSTANT, 255, OP_POP, OP_CONSTANT, 0, OP_POP, OP_RETURN], 257, [])"
  using emitConstant_effect [of v l w] identifierConstant_fresh [of tok w] two_more_constants
  by simp

section \<open>Reading and assigning globals\<close>

lemma undefined_var_run:
  "map_option (\<lambda>(r, w). (r, out w, err w))
     (interpret_vm 100 ''print undefined_var;'' (initVM process_start))
   = Some (Returned INTERPRET_RUNTIME_ERROR, [],
       [Runtime_diag (''Undefined variable '' @ [CHR 0x27] @ ''undefined_var'' @ [CHR 0x27] @ ''.'')])"
  by code_simp

text \<open>
  C7.  In front of an \<open>OP_GET_GLOBAL\<close> or \<open>OP_SET_GLOBAL\<close> whose operand names
  \<open>name\<close>: when \<open>getGlobal\<close> does not find the name, the instruction ends the run with
  \<open>INTERPRET_RUNTIME_ERROR\<close> and the diagnostic \<open>Undefined variable 'name'.\<close>, and
  only then.  When the name is present, \<open>OP_GET_GLOBAL\<close> pushes the stored value;
  \<open>OP_SET_GLOBAL\<close> pops the value, stores it (a later \<open>getGlobal\<close> finds it) and
  pushes it back.  \<open>print undefined_var;\<close> ends with that diagnostic.
\<close>

theorem C7_get_set_global:
  assumes "stack_usable w"
    and "0 \<le> ip (vm w)" and "ip (vm w) + 1 < count (chunk w)"
    and "code (chunk w) ! nat (ip (vm w) + 1) = k" and "k < length (constants (chunk w))"
    and "constants (chunk w) ! k = OBJ_VAL name"
  shows "(code (chunk w) ! nat (ip (vm w)) = OP_GET_GLOBAL \<longrightarrow>
           step w =
             (case getGlobal (Some name) (globals w) of
                None \<Rightarrow> Stop INTERPRET_RUNTIME_ERROR
                         (runtimeError (''Undefined variable '' @ [CHR 0x27] @ chars name @ [CHR 0x27] @ ''.'')
                            (jumped 2 w))
              | Some val \<Rightarrow> Next (pushed val (jumped 2 w))))
       \<and> (code (chunk w) ! nat (ip (vm w)) = OP_SET_GLOBAL \<longrightarrow>
           (\<forall>v rest. stack (vm w) = v # rest \<longrightarrow>
              step w =
                (case getGlobal (Some name) (globals w) of
                   None \<Rightarrow> Stop INTERPRET_RUNTIME_ERROR
                            (runtimeError (''Undefined variable '' @ [CHR 0x27] @ chars name @ [CHR 0x27] @ ''.'')
                               ((jumped 2 w)\<lparr>vm := (vm (jumped 2 w))\<lparr>stack := rest\<rparr>\<rparr>))
                 | Some old \<Rightarrow> Next (pushed v
                            ((jumped 2 w)\<lparr>vm := (vm (jumped 2 w))\<lparr>stack := rest\<rparr>,
                                           globals := setGlobal (Some name) v (globals w)\<rparr>)))
              \<and> (getGlobal (Some name) (globals w) \<noteq> None \<longrightarrow>
                   getGlobal (Some name) (setGlobal (Some name) v (globals w)) = Some v)))
       \<and> map_option (\<lambda>(r, w). (r, out w, err w))
            (interpret_vm 100 ''print undefined_var;'' (initVM process_start))
          = Some (Returned INTERPRET_RUNTIME_ERROR, [],
              [Runtime_diag (''Undefined variable '' @ [CHR 0x27] @ ''undefined_var'' @ [CHR 0x27] @ ''.'')])"
proof (intro conjI impI allI)
  assume "code (chunk w) ! nat (ip (vm w)) = OP_GET_GLOBAL"
  from step_get_global [OF assms(1-3) this assms(4-6), unfolded undefined_variable_def]
  show "step w =
             (case getGlobal (Some name) (globals w) of
                None \<Rightarrow> Stop INTERPRET_RUNTIME_ERROR
                         (runtimeError (''Undefined variable '' @ [CHR 0x27] @ chars name @ [CHR 0x27] @ ''.'')
                            (jumped 2 w))
              | Some val \<Rightarrow> Next (pushed val (jumped 2 w)))"
    .
next
  fix v rest
  assume op: "code (chunk w) ! nat (ip (vm w)) = OP_SET_GLOBAL" and st: "stack (vm w) = v # rest"
  from step_set_global [OF assms(1) st assms(2,3) op assms(4-6), unfolded undefined_variable_def]
  show "step w =
                (case getGlobal (Some name) (globals w) of
                   None \<Rightarrow> Stop INTERPRET_RUNTIME_ERROR
                            (runtimeError (''Undefined variable '' @ [CHR 0x27] @ chars name @ [CHR 0x27] @ ''.'')
                               ((jumped 2 w)\<lparr>vm := (vm (jumped 2 w))\<lparr>stack := rest\<rparr>\<rparr>))
                 | Some old \<Rightarrow> Next (pushed v
                            ((jumped 2 w)\<lparr>vm := (vm (jumped 2 w))\<lparr>stack := rest\<rparr>,
                                           globals := setGlobal (Some name) v (globals w)\<rparr>)))"
    .
next
  fix v :: Value and rest :: "Value list"
  assume "getGlobal (Some name) (globals w) \<noteq> None"
  then show "getGlobal (Some name) (setGlobal (Some name) v (globals w)) = Some v"
    by (simp add: getGlobal_setGlobal_same)
next
  show "map_option (\<lambda>(r, w). (r, out w, err w))
            (interpret_vm 100 ''print undefined_var;'' (initVM process_start))
          = Some (Returned INTERPRET_RUNTIME_ERROR, [],
              [Runtime_diag (''Undefined variable '' @ [CHR 0x27] @ ''undefined_var'' @ [CHR 0x27] @ ''.'')])"
    by (rule undefined_var_run)
qed

theorem C7_get_set_global_witness:
  "stack_usable at_get
   \<and> 0 \<le> ip (vm at_get) \<and> ip (vm at_get) + 1 < count (chunk at_get)
   \<and> code (chunk at_get) ! nat (ip (vm at_get) + 1) = 0
   \<and> 0 < length (constants (chunk at_get))
   \<and> constants (chunk at_get) ! 0 = OBJ_VAL name_get
   \<and> code (chunk at_get) ! nat (ip (vm at_get)) = OP_GET_GLOBAL
   \<and> getGlobal (Some name_get) (globals at_get) = None
   \<and> step at_get =
       Stop INTERPRET_RUNTIME_ERROR
         (runtimeError (''Undefined variable '' @ [CHR 0x27] @ chars name_get @ [CHR 0x27] @ ''.'')
            (jumped 2 at_get))
   \<and> stack_usable at_set
   \<and> 0 \<le> ip (vm at_set) \<and> ip (vm at_set) + 1 < count (chunk at_set)
   \<and> code (chunk at_set) ! nat (ip (vm at_set) + 1) = 2
   \<and> 2 < length (constants (chunk at_set))
   \<and> constants (chunk at_set) ! 2 = OBJ_VAL name_set
   \<and> code (chunk at_set) ! nat (ip (vm at_set)) = OP_SET_GLOBAL
   \<and> stack (vm at_set) = [NUMBER_VAL 2]
   \<and> getGlobal (Some name_set) (globals at_set) = Some (NUMBER_VAL 1)
   \<and> step at_set =
       Next (pushed (NUMBER_VAL 2)
         ((jumped 2 at_set)\<lparr>vm := (vm (jumped 2 at_set))\<lparr>stack := []\<rparr>,
                              globals := setGlobal (Some name_set) (NUMBER_VAL 2) (globals at_set)\<rparr>))
   \<and> getGlobal (Some name_set) (setGlobal (Some name_set) (NUMBER_VAL 2) (globals at_set))
       = Some (NUMBER_VAL 2)"
proof -
  have G: "(stack_usable at_get, ip (vm at_get), count (chunk at_get), code (chunk at_get),
            constants (chunk at_get), globals at_get)
         = (True, 0, 4, [OP_GET_GLOBAL, 0, OP_PRINT, OP_RETURN], [OBJ_VAL name_get], [])"
    by code_simp
  have S: "(stack_usable at_set, ip (vm at_set), count (chunk at_set), code (chunk at_set),
            constants (chunk at_set), globals at_set, stack (vm at_set))
         = (True, 6, 10,
            [OP_CONSTANT, 1, OP_DEFINE_GLOBAL, 0, OP_CONSTANT, 3, OP_SET_GLOBAL, 2, OP_POP, OP_RETURN],
            [OBJ_VAL \<lparr>addr = 0, chars = ''a''\<rparr>, NUMBER_VAL 1, OBJ_VAL name_set, NUMBER_VAL 2],
            [(Some \<lparr>addr = 0, chars = ''a''\<rparr>, NUMBER_VAL 1)], [NUMBER_VAL 2])"
    by code_simp
  have g1: "stack_usable at_get" using G by simp
  have g2: "0 \<le> ip (vm at_get)" using G by simp
  have g3: "ip (vm at_get) + 1 < count (chunk at_get)" using G by simp
  have g4: "code (chunk at_get) ! nat (ip (vm at_get) + 1) = 0" using G by simp
  have g5: "0 < length (constants (chunk at_get))" using G by simp
  have g6: "constants (chunk at_get) ! 0 = OBJ_VAL name_get" using G by simp
  have g7: "code (chunk at_get) ! nat (ip (vm at_get)) = OP_GET_GLOBAL" using G by simp
  have g8: "getGlobal (Some name_get) (globals at_get) = None" using G by simp
  have s1: "stack_usable at_set" using S by simp
  have s2: "0 \<le> ip (vm at_set)" using S by simp
  have s3: "ip (vm at_set) + 1 < count (chunk at_set)" using S by simp
  have s4: "code (chunk at_set) ! nat (ip (vm at_set) + 1) = 2" using S by simp
  have s5: "2 < length (constants (chunk at_set))" using S by simp
  have s6: "constants (chunk at_set) ! 2 = OBJ_VAL name_set" using S by simp
  have s7: "code (chunk at_set) ! nat (ip (vm at_set)) = OP_SET_GLOBAL" using S by simp
  have s8: "stack (vm at_set) = [NUMBER_VAL 2]" using S by simp
  have s9: "getGlobal (Some name_set) (globals at_set) = Some (NUMBER_VAL 1)"
    using S by (simp add: name_set_def)
  have cg: "step at_get =
       Stop INTERPRET_RUNTIME_ERROR
         (runtimeError (''Undefined variable '' @ [CHR 0x27] @ chars name_get @ [CHR 0x27] @ ''.'')
            (jumped 2 at_get))"
    using C7_get_set_global [OF g1 g2 g3 g4 g5 g6] g7 g8 by simp
  have cs: "step at_set =
       Next (pushed (NUMBER_VAL 2)
         ((jumped 2 at_set)\<lparr>vm := (vm (jumped 2 at_set))\<lparr>stack := []\<rparr>,
                              globals := setGlobal (Some name_set) (NUMBER_VAL 2) (globals at_set)\<rparr>))
     \<and> getGlobal (Some name_set) (setGlobal (Some name_set) (NUMBER_VAL 2) (globals at_set))
       = Some (NUMBER_VAL 2)"
    using C7_get_set_global [OF s1 s2 s3 s4 s5 s6] s7 s8 s9 by simp
  from g1 g2 g3 g4 g5 g6 g7 g8 cg s1 s2 s3 s4 s5 s6 s7 s8 s9 cs show ?thesis
    by (intro conjI) (simp_all only:)
qed

section \<open>A full table of globals\<close>

lemma after_constant_reached:
  "steps 1 (compiled ((initVM process_start)\<lparr>next_addr := 256, globals := g\<rparr>) ''var q = 1; print q;'')
     = after_constant g"
  by code_simp

lemma at_define_reached: "steps 1 (compiled crowded ''var q = 1; print q;'') = at_define"
  using after_constant_reached [of full_table] by (simp add: crowded_def at_define_def)

lemma getGlobal_None_iff: "(getGlobal name gs = None) = (\<forall>(n, v) \<in> set gs. \<not> stringsEqual n name)"
  by (induction gs) (auto split: if_splits)

lemma length_full_table: "length full_table = 256"
  by (simp add: full_table_def)

lemma full_table_new_name:
  "256 \<le> addr name \<Longrightarrow> length (chars name) \<noteq> 2 \<Longrightarrow> getGlobal (Some name) full_table = None"
  by (auto simp: getGlobal_None_iff full_table_def)

lemma full_table_consistent: "256 \<le> addr name \<Longrightarrow> heap_consistent name full_table"
  by (auto simp: heap_consistent_def list_all_iff full_table_def)

lemma full_table_distinct: "distinct (map (\<lambda>(n, v). map_option chars n) full_table)"
proof -
  have inj: "inj_on (\<lambda>i. Some [char_of (65 + i div 16), char_of (97 + i mod 16 :: nat)]) {0..<256}"
  proof (rule inj_onI)
    fix i j :: nat
    assume i: "i \<in> {0..<256}" and j: "j \<in> {0..<256}"
      and eq: "Some [char_of (65 + i div 16), char_of (97 + i mod 16)] =
               Some [char_of (65 + j div 16), char_of (97 + j mod 16)]"
    have "(65 + i div 16) mod 256 = (65 + j div 16) mod 256"
      and "(97 + i mod 16) mod 256 = (97 + j mod 16) mod 256"
      using eq by (simp_all add: char_of_eq_iff take_bit_eq_mod)
    moreover have "65 + i div 16 < 256" "65 + j div 16 < 256"
      "97 + i mod 16 < 256" "97 + j mod 16 < 256"
      using i j by auto
    ultimately have "i div 16 = j div 16" "i mod 16 = j mod 16" by simp_all
    then show "i = j" by (metis div_mult_mod_eq)
  qed
  have "map (\<lambda>(n, v). map_option chars n) full_table =
        map (\<lambda>i. Some [char_of (65 + i div 16), char_of (97 + i mod 16)]) [0..<256]"
    by (simp add: full_table_def comp_def)
  then show ?thesis using inj by (simp add: distinct_map)
qed

text \<open>
  C10.  With 256 globals in the table, an \<open>OP_DEFINE_GLOBAL\<close> of a name the table
  does not hold pops the value and changes nothing else: the table is as before, and
  nothing is written to either stream.  An \<open>OP_GET_GLOBAL\<close> of that spelling, run on
  this table, ends the run with \<open>INTERPRET_RUNTIME_ERROR\<close> and the diagnostic
  \<open>Undefined variable 'name'.\<close>.
\<close>

theorem C10_define_into_full_table:
  assumes "stack_usable w" and "stack (vm w) = v # rest"
    and "0 \<le> ip (vm w)" and "ip (vm w) + 1 < count (chunk w)"
    and "code (chunk w) ! nat (ip (vm w)) = OP_DEFINE_GLOBAL"
    and "code (chunk w) ! nat (ip (vm w) + 1) = k" and "k < length (constants (chunk w))"
    and "constants (chunk w) ! k = OBJ_VAL name"
    and "length (globals w) = 256"
    and "getGlobal (Some name) (globals w) = None"
  shows "(\<exists>w'. step w = Next w' \<and> globals w' = globals w \<and> stack (vm w') = rest
            \<and> ip (vm w') = ip (vm w) + 2 \<and> out w' = out w \<and> err w' = err w)
       \<and> (\<forall>w2 k2 name2.
            globals w2 = globals w \<longrightarrow> stack_usable w2 \<longrightarrow>
            0 \<le> ip (vm w2) \<longrightarrow> ip (vm w2) + 1 < count (chunk w2) \<longrightarrow>
            code (chunk w2) ! nat (ip (vm w2)) = OP_GET_GLOBAL \<longrightarrow>
            code (chunk w2) ! nat (ip (vm w2) + 1) = k2 \<longrightarrow> k2 < length (constants (chunk w2)) \<longrightarrow>
            constants (chunk w2) ! k2 = OBJ_VAL name2 \<longrightarrow>
            chars name2 = chars name \<longrightarrow>
            heap_consistent name (globals w) \<longrightarrow> heap_consistent name2 (globals w) \<longrightarrow>
            step w2 =
              Stop INTERPRET_RUNTIME_ERROR
                (runtimeError (''Undefined variable '' @ [CHR 0x27] @ chars name2 @ [CHR 0x27] @ ''.'')
                   (jumped 2 w2)))"
proof (intro conjI allI impI)
  have same: "setGlobal (Some name) v (globals w) = globals w"
    using assms(9,10) by (simp add: setGlobal_full_new MAX_GLOBALS_def)
  let ?w' = "(jumped 2 w)\<lparr>globals := setGlobal (Some name) v (globals w),
                         vm := (vm (jumped 2 w))\<lparr>stack := rest\<rparr>\<rparr>"
  have "step w = Next ?w'"
    by (rule step_define_global [OF assms(1-8)])
  moreover have "globals ?w' = globals w" by (simp add: same)
  moreover have "stack (vm ?w') = rest" "ip (vm ?w') = ip (vm w) + 2"
    "out ?w' = out w" "err ?w' = err w"
    by (simp_all add: jumped_def)
  ultimately show "\<exists>w'. step w = Next w' \<and> globals w' = globals w \<and> stack (vm w') = rest
            \<and> ip (vm w') = ip (vm w) + 2 \<and> out w' = out w \<and> err w' = err w"
    by blast
next
  fix w2 k2 name2
  assume g: "globals w2 = globals w" and u: "stack_usable w2"
    and i: "0 \<le> ip (vm w2)" "ip (vm w2) + 1 < count (chunk w2)"
    and opc: "code (chunk w2) ! nat (ip (vm w2)) = OP_GET_GLOBAL"
    and kk: "code (chunk w2) ! nat (ip (vm w2) + 1) = k2" "k2 < length (constants (chunk w2))"
      "constants (chunk w2) ! k2 = OBJ_VAL name2"
    and sp: "chars name2 = chars name"
    and hc: "heap_consistent name (globals w)" "heap_consistent name2 (globals w)"
  have "getGlobal (Some name2) (globals w2) = None"
    using getGlobal_spelling [OF sp [symmetric] hc] assms(10) g by simp
  with step_get_global [OF u i opc kk, unfolded undefined_variable_def]
  show "step w2 =
              Stop INTERPRET_RUNTIME_ERROR
                (runtimeError (''Undefined variable '' @ [CHR 0x27] @ chars name2 @ [CHR 0x27] @ ''.'')
                   (jumped 2 w2))"
    by simp
qed

theorem C10_define_into_full_table_witness:
  "stack_usable at_define \<and> stack (vm at_define) = [NUMBER_VAL 1]
   \<and> 0 \<le> ip (vm at_define) \<and> ip (vm at_define) + 1 < count (chunk at_define)
   \<and> code (chunk at_define) ! nat (ip (vm at_define)) = OP_DEFINE_GLOBAL
   \<and> code (chunk at_define) ! nat (ip (vm at_define) + 1) = 0
   \<and> 0 < length (constants (chunk at_define))
   \<and> constants (chunk at_define) ! 0 = OBJ_VAL name_q0
   \<and> length (globals at_define) = 256
   \<and> distinct (map (\<lambda>(n, v). map_option chars n) (globals at_define))
   \<and> getGlobal (Some name_q0) (globals at_define) = None
   \<and> (\<exists>w'. step at_define = Next w' \<and> globals w' = globals at_define \<and> stack (vm w') = []
         \<and> ip (vm w') = ip (vm at_define) + 2 \<and> out w' = out at_define \<and> err w' = err at_define)
   \<and> globals at_get_q = globals at_define \<and> stack_usable at_get_q
   \<and> 0 \<le> ip (vm at_get_q) \<and> ip (vm at_get_q) + 1 < count (chunk at_get_q)
   \<and> code (chunk at_get_q) ! nat (ip (vm at_get_q)) = OP_GET_GLOBAL
   \<and> code (chunk at_get_q) ! nat (ip (vm at_get_q) + 1) = 2
   \<and> 2 < length (constants (chunk at_get_q))
   \<and> constants (chunk at_get_q) ! 2 = OBJ_VAL name_q1
   \<and> chars name_q1 = chars name_q0
   \<and> heap_consistent name_q0 (globals at_define) \<and> heap_consistent name_q1 (globals at_define)
   \<and> step at_get_q =
        Stop INTERPRET_RUNTIME_ERROR
          (runtimeError (''Undefined variable '' @ [CHR 0x27] @ chars name_q1 @ [CHR 0x27] @ ''.'')
             (jumped 2 at_get_q))"
proof -
  have q0: "256 \<le> addr name_q0" "length (chars name_q0) \<noteq> 2" by (simp_all add: name_q0_def)
  have q1: "256 \<le> addr name_q1" by (simp add: name_q1_def)
  have d1: "stack_usable at_define" by (simp add: at_define_def after_constant_def stack_usable_def)
  have d2: "stack (vm at_define) = [NUMBER_VAL 1]" by (simp add: at_define_def after_constant_def)
  have d3: "0 \<le> ip (vm at_define)" by (simp add: at_define_def after_constant_def)
  have d4: "ip (vm at_define) + 1 < count (chunk at_define)"
    by (simp add: at_define_def after_constant_def count_def)
  have d5: "code (chunk at_define) ! nat (ip (vm at_define)) = OP_DEFINE_GLOBAL"
    by (simp add: at_define_def after_constant_def)
  have d6: "code (chunk at_define) ! nat (ip (vm at_define) + 1) = 0"
    by (simp add: at_define_def after_constant_def)
  have d7: "0 < length (constants (chunk at_define))" by (simp add: at_define_def after_constant_def)
  have d8: "constants (chunk at_define) ! 0 = OBJ_VAL name_q0"
    by (simp add: at_define_def after_constant_def)
  have gl: "globals at_define = full_table" by (simp add: at_define_def after_constant_def)
  have d9: "length (globals at_define) = 256" by (simp add: gl length_full_table)
  have d10: "getGlobal (Some name_q0) (globals at_define) = None"
    by (simp add: gl full_table_new_name [OF q0])
  have d11: "distinct (map (\<lambda>(n, v). map_option chars n) (globals at_define))"
    by (simp only: gl full_table_distinct)
  have e1: "globals at_get_q = globals at_define" by (simp add: at_get_q_def)
  have e2: "stack_usable at_get_q"
    by (simp add: at_get_q_def at_define_def after_constant_def stack_usable_def)
  have e3: "0 \<le> ip (vm at_get_q)" by (simp add: at_get_q_def)
  have e4: "ip (vm at_get_q) + 1 < count (chunk at_get_q)"
    by (simp add: at_get_q_def at_define_def after_constant_def count_def)
  have e5: "code (chunk at_get_q) ! nat (ip (vm at_get_q)) = OP_GET_GLOBAL"
    by (simp add: at_get_q_def at_define_def after_constant_def)
  have e6: "code (chunk at_get_q) ! nat (ip (vm at_get_q) + 1) = 2"
    by (simp add: at_get_q_def at_define_def after_constant_def)
  have e7: "2 < length (constants (chunk at_get_q))"
    by (simp add: at_get_q_def at_define_def after_constant_def)
  have e8: "constants (chunk at_get_q) ! 2 = OBJ_VAL name_q1"
    by (simp add: at_get_q_def at_define_def after_constant_def)
  have e9: "chars name_q1 = chars name_q0" by (simp add: name_q0_def name_q1_def)
  have e10: "heap_consistent name_q0 (globals at_define)"
    by (simp only: gl full_table_consistent [OF q0(1)])
  have e11: "heap_consistent name_q1 (globals at_define)"
    by (simp only: gl full_table_consistent [OF q1])
  note main = C10_define_into_full_table [OF d1 d2 d3 d4 d5 d6 d7 d8 d9 d10]
  have c1: "\<exists>w'. step at_define = Next w' \<and> globals w' = globals at_define \<and> stack (vm w') = []
         \<and> ip (vm w') = ip (vm at_define) + 2 \<and> out w' = out at_define \<and> err w' = err at_define"
    using main by (rule conjunct1)
  have c2: "step at_get_q =
        Stop INTERPRET_RUNTIME_ERROR
          (runtimeError (''Undefined variable '' @ [CHR 0x27] @ chars name_q1 @ [CHR 0x27] @ ''.'')
             (jumped 2 at_get_q))"
    using main [THEN conjunct2, rule_format, OF e1 e2 e3 e4 e5 e6 e7 e8 e9 e10 e11] .
  from d1 d2 d3 d4 d5 d6 d7 d8 d9 d10 d11 e1 e2 e3 e4 e5 e6 e7 e8 e9 e10 e11 c1 c2
  show ?thesis by (intro conjI) (simp_all only:)
qed

section \<open>The loop of a while statement\<close>

lemma odd_offset: "(loopStart - c - 2) mod 65536 \<noteq> c + 3 - (loopStart :: int)"
proof
  define x where "x = loopStart - c - 2"
  assume "(loopStart - c - 2) mod 65536 = c + 3 - loopStart"
  then have a: "x mod 65536 = 1 - x" by (simp add: x_def)
  have "(x mod 65536) mod 2 = x mod 2" by (simp add: mod_mod_cancel)
  with a have "(1 - x) mod 2 = x mod 2" by simp
  then show False by presburger
qed

lemma short_of_bytes:
  "int (nat ((x div 256) mod 256)) * 256 + int (nat (x mod 256)) = x mod 65536" for x :: int
proof -
  have "x mod (256 * 256) = 256 * (x div 256 mod 256) + x mod 256"
    using mod_mult2_eq' [of x 256 256] by simp
  then show ?thesis by simp
qed

lemma emitLoop_code:
  "code (chunk (emitLoop loopStart w)) =
     code (chunk w) @ [OP_LOOP, nat (((loopStart - count (chunk w) - 2) div 256) mod 256),
                       nat ((loopStart - count (chunk w) - 2) mod 256)]"
  by (simp add: emitLoop_def emitByte_def writeChunk_def Let_def)

lemma step_at_loop:
  "step (at_loop loopStart w) =
     Next ((emitLoop loopStart w)\<lparr>vm := (vm (emitLoop loopStart w))
        \<lparr>ip := count (chunk w) + 3 - (loopStart - count (chunk w) - 2) mod 65536\<rparr>\<rparr>)"
proof -
  let ?o = "loopStart - count (chunk w) - 2"
  let ?w1 = "emitLoop loopStart w"
  let ?n = "length (code (chunk w))"
  have cnt: "count (chunk ?w1) = count (chunk w) + 3"
    by (simp add: count_def emitLoop_code)
  have c0: "code (chunk ?w1) ! ?n = OP_LOOP"
    and c1: "code (chunk ?w1) ! (Suc ?n) = nat ((?o div 256) mod 256)"
    and c2: "code (chunk ?w1) ! (Suc (Suc ?n)) = nat (?o mod 256)"
    by (simp_all add: emitLoop_code nth_append)
  have rb: "READ_BYTE (at_loop loopStart w) =
      Inr (OP_LOOP, ?w1\<lparr>vm := (vm ?w1)\<lparr>ip := count (chunk w) + 1\<rparr>\<rparr>)"
    using c0 cnt by (simp add: READ_BYTE_def at_loop_def Let_def count_def)
  have rs: "READ_SHORT (?w1\<lparr>vm := (vm ?w1)\<lparr>ip := count (chunk w) + 1\<rparr>\<rparr>) =
      Inr (?o mod 65536, ?w1\<lparr>vm := (vm ?w1)\<lparr>ip := count (chunk w) + 3\<rparr>\<rparr>)"
    using c1 c2 cnt short_of_bytes [of ?o]
    by (simp add: READ_SHORT_def Let_def count_def nat_add_distrib)
  show ?thesis
    by (simp add: step_def rb andThen_def opcodes op_loop_def rs)
qed

lemma while_program_code:
  "map_option (\<lambda>(ok, w). (ok, code (chunk w)))
     (compile 100 ''var i = 0; while (i < 3) { print i; i = i + 1; }'' process_start)
   = Some (True,
       [OP_CONSTANT, 1, OP_DEFINE_GLOBAL, 0,
        OP_GET_GLOBAL, 2, OP_CONSTANT, 3, OP_LESS, OP_JUMP_IF_FALSE, 0, 15, OP_POP,
        OP_GET_GLOBAL, 4, OP_PRINT, OP_GET_GLOBAL, 6, OP_CONSTANT, 7, OP_ADD, OP_SET_GLOBAL, 5, OP_POP,
        OP_LOOP, 255, 234, OP_POP, OP_RETURN])"
  by code_simp

lemma while_program_run:
  "map_option (\<lambda>(r, w). (r, out w, err w, ip (vm w)))
     (interpret_vm 100 ''var i = 0; while (i < 3) { print i; i = i + 1; }'' (initVM process_start))
   = Some (Undefined_behaviour Ip_outside_code, [NUMBER_VAL 0], [], - 65487)"
  by code_simp

text \<open>
  C1 (the code departs from the claim).  For every \<open>while\<close> statement the operand
  written after \<open>OP_LOOP\<close> is \<open>loopStart - count - 2\<close> cut to 16 bits, a negative
  number read back as unsigned; executing the \<open>OP_LOOP\<close> puts \<open>ip\<close> at
  \<open>count + 3 - (loopStart - count - 2) mod 65536\<close>, which is never \<open>loopStart\<close>.
  The program \<open>var i = 0; while (i < 3) { print i; i = i + 1; }\<close> compiles to an
  \<open>OP_LOOP\<close> with the operand bytes 255 and 234; running it prints 0 and then moves
  \<open>ip\<close> to 65487 bytes before the code, where the next fetch is undefined.
\<close>

theorem C1_loop_offset_does_not_reach_loop_start:
  "(\<forall>loopStart w.
      step (at_loop loopStart w) =
        Next ((emitLoop loopStart w)\<lparr>vm := (vm (emitLoop loopStart w))
          \<lparr>ip := count (chunk w) + 3 - (loopStart - count (chunk w) - 2) mod 65536\<rparr>\<rparr>)
      \<and> count (chunk w) + 3 - (loopStart - count (chunk w) - 2) mod 65536 \<noteq> loopStart)
   \<and> map_option (\<lambda>(ok, w). (ok, code (chunk w)))
         (compile 100 ''var i = 0; while (i < 3) { print i; i = i + 1; }'' process_start)
       = Some (True,
           [OP_CONSTANT, 1, OP_DEFINE_GLOBAL, 0,
            OP_GET_GLOBAL, 2, OP_CONSTANT, 3, OP_LESS, OP_JUMP_IF_FALSE, 0, 15, OP_POP,
            OP_GET_GLOBAL, 4, OP_PRINT, OP_GET_GLOBAL, 6, OP_CONSTANT, 7, OP_ADD, OP_SET_GLOBAL, 5, OP_POP,
            OP_LOOP, 255, 234, OP_POP, OP_RETURN])
   \<and> map_option (\<lambda>(r, w). (r, out w, err w, ip (vm w)))
         (interpret_vm 100 ''var i = 0; while (i < 3) { print i; i = i + 1; }'' (initVM process_start))
       = Some (Undefined_behaviour Ip_outside_code, [NUMBER_VAL 0], [], - 65487)"
proof (intro conjI allI)
  fix loopStart w
  show "step (at_loop loopStart w) =
        Next ((emitLoop loopStart w)\<lparr>vm := (vm (emitLoop loopStart w))
          \<lparr>ip := count (chunk w) + 3 - (loopStart - count (chunk w) - 2) mod 65536\<rparr>\<rparr>)"
    by (rule step_at_loop)
  show "count (chunk w) + 3 - (loopStart - count (chunk w) - 2) mod 65536 \<noteq> loopStart"
    using odd_offset [of loopStart "count (chunk w)"] by linarith
qed (rule while_program_code while_program_run)+

section \<open>The condition on the falsy path\<close>

lemma if_false_run:
  "map_option (\<lambda>(r, w). (r, out w, stack (vm w), ip (vm w), code (chunk w) ! nat (ip (vm w))))
     (interpret_vm 100 ''if (false) print 1;'' (initVM process_start))
   = Some (Undefined_behaviour Stack_underflow, [], [], 11, OP_POP)"
  by code_simp

lemma while_false_run:
  "map_option (\<lambda>(r, w). (r, out w, stack (vm w), ip (vm w), code (chunk w) ! nat (ip (vm w))))
     (interpret_vm 100 ''while (false) print 1;'' (initVM process_start))
   = Some (Undefined_behaviour Stack_underflow, [], [], 11, OP_POP)"
  by code_simp

text \<open>
  C2 (the code departs from the claim).  On a falsy condition \<open>OP_JUMP_IF_FALSE\<close>
  pops the condition and jumps to the \<open>OP_POP\<close> the compiler emitted for that path,
  which pops again.  In \<open>if (false) print 1;\<close> and in \<open>while (false) print 1;\<close>, neither
  of which raises a runtime error, the machine arrives at that \<open>OP_POP\<close> (offset 11)
  with an empty stack.
\<close>

theorem C2_falsy_branch_pops_twice:
  "map_option (\<lambda>(ok, w). (ok, code (chunk w)))
       (compile 100 ''if (false) print 1;'' process_start)
     = Some (True,
         [OP_FALSE, OP_JUMP_IF_FALSE, 0, 7, OP_POP, OP_CONSTANT, 0, OP_PRINT, OP_JUMP, 0, 1,
          OP_POP, OP_RETURN])
   \<and> map_option (\<lambda>(r, w). (r, out w, stack (vm w), ip (vm w), code (chunk w) ! nat (ip (vm w))))
       (interpret_vm 100 ''if (false) print 1;'' (initVM process_start))
     = Some (Undefined_behaviour Stack_underflow, [], [], 11, OP_POP)
   \<and> map_option (\<lambda>(r, w). (r, out w, stack (vm w), ip (vm w), code (chunk w) ! nat (ip (vm w))))
       (interpret_vm 100 ''while (false) print 1;'' (initVM process_start))
     = Some (Undefined_behaviour Stack_underflow, [], [], 11, OP_POP)"
proof (intro conjI)
  show "map_option (\<lambda>(ok, w). (ok, code (chunk w)))
       (compile 100 ''if (false) print 1;'' process_start)
     = Some (True,
         [OP_FALSE, OP_JUMP_IF_FALSE, 0, 7, OP_POP, OP_CONSTANT, 0, OP_PRINT, OP_JUMP, 0, 1,
          OP_POP, OP_RETURN])"
    by code_simp
qed (rule if_false_run while_false_run)+

section \<open>A compilation that does not end\<close>

lemma match_other:
  "ctype w = TOKEN_RIGHT_PAREN \<Longrightarrow> ty \<noteq> TOKEN_RIGHT_PAREN \<Longrightarrow> match ty w = (False, w)"
  by (auto simp: match_def ctype_def)

lemma ctype_errorAtCurrent [simp]: "ctype (errorAtCurrent m w) = ctype w"
  by (simp add: ctype_def errorAtCurrent_def errorAt_def)

lemma ctype_emitByte [simp]: "ctype (emitByte b l w) = ctype w"
  by (simp add: ctype_def emitByte_def)

lemma consume_other:
  "ctype w = TOKEN_RIGHT_PAREN \<Longrightarrow> ty \<noteq> TOKEN_RIGHT_PAREN \<Longrightarrow>
     consume ty m w = errorAtCurrent m w"
  by (auto simp: consume_def ctype_def)

lemma parsePrecedence1_paren:
  assumes "ctype w = TOKEN_RIGHT_PAREN" and "parsePrecedence1 n w = Some w'"
  shows "ctype w' = TOKEN_RIGHT_PAREN"
proof (cases n)
  case 0
  with assms show ?thesis by simp
next
  case (Suc m)
  with assms have "w' = errorAtCurrent ''Expect expression.'' w"
    by (simp add: match_other)
  with assms show ?thesis by simp
qed

lemma expression_loop_paren:
  assumes "ctype w = TOKEN_RIGHT_PAREN" and "expression_loop n w = Some w'"
  shows "w' = w"
proof (cases n)
  case 0
  with assms show ?thesis by simp
next
  case (Suc m)
  with assms show ?thesis by (simp add: match_other)
qed

lemma expression_paren:
  assumes "ctype w = TOKEN_RIGHT_PAREN" and "expression n w = Some w'"
  shows "ctype w' = TOKEN_RIGHT_PAREN"
proof (cases n)
  case 0
  with assms show ?thesis by simp
next
  case (Suc m)
  with assms obtain w1 where p: "parsePrecedence1 m w = Some w1" and l: "expression_loop m w1 = Some w'"
    by (auto split: bind_splits)
  from parsePrecedence1_paren [OF assms(1) p] have c: "ctype w1 = TOKEN_RIGHT_PAREN" .
  from expression_loop_paren [OF c l] c show ?thesis by simp
qed

lemma declaration_paren:
  assumes "ctype w = TOKEN_RIGHT_PAREN" and "declaration_p n w = Some w'"
  shows "ctype w' = TOKEN_RIGHT_PAREN"
proof (cases n)
  case 0
  with assms show ?thesis by simp
next
  case (Suc m)
  with assms obtain w1 where e: "expression m w = Some w1"
    and w': "w' = emitByte OP_POP (pline (consume TOKEN_SEMICOLON ''Expect ';' after expression.'' w1))
                    (consume TOKEN_SEMICOLON ''Expect ';' after expression.'' w1)"
    by (auto simp: match_other Let_def split: bind_splits)
  from expression_paren [OF assms(1) e] have "ctype w1 = TOKEN_RIGHT_PAREN" .
  then show ?thesis by (simp add: w' consume_other)
qed

lemma compile_loop_paren: "ctype w = TOKEN_RIGHT_PAREN \<Longrightarrow> compile_loop n w = None"
proof (induction n arbitrary: w)
  case 0
  show ?case by simp
next
  case (Suc n)
  show ?case
  proof (cases "declaration_p n w")
    case None
    with Suc.prems show ?thesis by (simp add: match_other)
  next
    case (Some w1)
    from declaration_paren [OF Suc.prems Some] have "ctype w1 = TOKEN_RIGHT_PAREN" .
    from Suc.IH [OF this] Some Suc.prems show ?thesis by (simp add: match_other)
  qed
qed

lemma scanToken_paren:
  "scanToken (initScanner '')'') =
     (\<lparr>ttype = TOKEN_RIGHT_PAREN, lexeme = '')'', tline = 1\<rparr>,
      \<lparr>scan_start = '')'', scan_current = [], scan_line = 1\<rparr>)"
  by code_simp

lemma advance_paren: "scanner w = initScanner '')'' \<Longrightarrow> ctype (advance w) = TOKEN_RIGHT_PAREN"
  by (subst advance_def, subst advance_loop.simps) (simp add: scanToken_paren Let_def ctype_def)

text \<open>
  C3 (the code departs from the claim).  On the source \<open>)\<close> the loop of \<open>compile\<close>
  never ends: \<open>declaration\<close> reports the error and emits \<open>OP_POP\<close> without consuming
  the token, so \<open>match(TOKEN_EOF)\<close> stays false.  Whatever the fuel and the state of
  the process, \<open>compile\<close> does not return.  Where the erroneous token is consumed, as
  in \<open>print ;\<close>, \<open>compile\<close> does run to the end and returns false.
\<close>

lemma print_without_operand:
  "map_option (\<lambda>(ok, w). (ok, code (chunk w), err w)) (compile 100 ''print ;'' process_start)
   = Some (False, [OP_PRINT, OP_RETURN], [Compile_diag 1 (At_lexeme '';'') ''Expect expression.''])"
  by code_simp

theorem C3_compile_never_returns_on_paren:
  "(\<forall>fuel w. compile fuel '')'' w = None)
   \<and> map_option (\<lambda>(ok, w). (ok, code (chunk w), err w)) (compile 100 ''print ;'' process_start)
       = Some (False, [OP_PRINT, OP_RETURN], [Compile_diag 1 (At_lexeme '';'') ''Expect expression.''])"
  using print_without_operand
  by (simp add: compile_def Let_def compile_loop_paren advance_paren)

section \<open>Division\<close>

lemma divide_programs:
  "map_option (\<lambda>(r, w). (r, out w, err w))
     (interpret_vm 100 ''print nil / 0;'' (initVM process_start))
   = Some (Returned INTERPRET_RUNTIME_ERROR, [], [Runtime_diag ''Division by zero.''])"
  "map_option (\<lambda>(r, w). (r, out w, err w))
     (interpret_vm 100 ''print 1 / nil;'' (initVM process_start))
   = Some (Returned INTERPRET_RUNTIME_ERROR, [], [Runtime_diag ''Division by zero.''])"
  "map_option (\<lambda>(r, w). (r, out w, err w))
     (interpret_vm 100 ''print 1 / 0;'' (initVM process_start))
   = Some (Returned INTERPRET_RUNTIME_ERROR, [], [Runtime_diag ''Division by zero.''])"
  "map_option (\<lambda>(r, w). (r, out w, err w))
     (interpret_vm 100 ''print nil / 2;'' (initVM process_start))
   = Some (Returned INTERPRET_RUNTIME_ERROR, [], [Runtime_diag ''Operands must be numbers.''])"
  by code_simp+

lemma op_divide_zero_check_first:
  "op_divide (with_stack (NUMBER_VAL 0 # a # rest) w) =
     Stop INTERPRET_RUNTIME_ERROR
       (runtimeError ''Division by zero.'' (with_stack (NUMBER_VAL 0 # a # rest) w))"
  "op_divide (with_stack (NIL_VAL # a # rest) w) =
     Stop INTERPRET_RUNTIME_ERROR
       (runtimeError ''Division by zero.'' (with_stack (NIL_VAL # a # rest) w))"
  "op_divide (with_stack (BOOL_VAL b # a # rest) w) = Undef Indeterminate_number"
  by (simp_all add: op_divide_def with_stack_def peek_def stack_access_def andThen_def)

text \<open>
  C4 (the code departs from the claim).  \<open>OP_DIVIDE\<close> compares the number read from
  the top of the stack with 0 before any tag is looked at.  With the divisor
  \<open>Number 0\<close> the error is \<open>Division by zero.\<close> whatever the dividend is, a number or
  not; with the divisor \<open>nil\<close>, whose union holds the number 0, it is
  \<open>Division by zero.\<close> as well.  So \<open>print nil / 0;\<close> and \<open>print 1 / nil;\<close> end with
  \<open>Division by zero.\<close>, not with \<open>Operands must be numbers.\<close>.
\<close>

theorem C4_divide_checks_zero_before_tags:
  "(\<forall>a rest w.
      op_divide (with_stack (NUMBER_VAL 0 # a # rest) w) =
        Stop INTERPRET_RUNTIME_ERROR
          (runtimeError ''Division by zero.'' (with_stack (NUMBER_VAL 0 # a # rest) w))
      \<and> op_divide (with_stack (NIL_VAL # a # rest) w) =
        Stop INTERPRET_RUNTIME_ERROR
          (runtimeError ''Division by zero.'' (with_stack (NIL_VAL # a # rest) w)))
   \<and> map_option (\<lambda>(r, w). (r, out w, err w))
       (interpret_vm 100 ''print nil / 0;'' (initVM process_start))
     = Some (Returned INTERPRET_RUNTIME_ERROR, [], [Runtime_diag ''Division by zero.''])
   \<and> map_option (\<lambda>(r, w). (r, out w, err w))
       (interpret_vm 100 ''print 1 / nil;'' (initVM process_start))
     = Some (Returned INTERPRET_RUNTIME_ERROR, [], [Runtime_diag ''Division by zero.''])"
  using op_divide_zero_check_first(1,2) divide_programs(1,2) by blast

section \<open>Two runs with freeVM and initVM between them\<close>

lemma print_twice:
  "map_option (\<lambda>((r1, w1), x). (r1, out w1, stack_buffer (vm w1), stackCapacity (vm w1),
        map_sum id (\<lambda>(r2, w3). (r2, drop (length (out w1)) (out w3))) x))
     (interpret_free_init_interpret 100 ''print 1;'' process_start)
   = Some (Returned INTERPRET_OK, [NUMBER_VAL 1], Live, 8,
       Inr (Undefined_behaviour Use_after_free, []))"
  by code_simp

text \<open>
  C9 (the code departs from the claim).  \<open>freeVM\<close> frees the stack buffer and leaves
  \<open>vm.stack\<close> and \<open>vm.stackCapacity\<close> as they were; \<open>initVM\<close> resets \<open>stackTop\<close>
  and \<open>globalCount\<close> only.  The first run of \<open>print 1;\<close> returns \<open>INTERPRET_OK\<close> and
  prints 1, leaving a live buffer of capacity 8; in the second run the first \<open>push\<close>
  finds the capacity sufficient and writes through the dangling pointer, before
  anything is printed.
\<close>

theorem C9_second_run_uses_freed_stack:
  "map_option (\<lambda>((r1, w1), x). (r1, out w1, stack_buffer (vm w1), stackCapacity (vm w1),
        map_sum id (\<lambda>(r2, w3). (r2, drop (length (out w1)) (out w3))) x))
     (interpret_free_init_interpret 100 ''print 1;'' process_start)
   = Some (Returned INTERPRET_OK, [NUMBER_VAL 1], Live, 8,
       Inr (Undefined_behaviour Use_after_free, []))"
  by (rule print_twice)

end
